theory Spec2Isabelle
  imports Main "HOL-Library.Sublist" "HOL-Library.AList"
begin

section \<open>JSON values and JavaScript errors\<close>

text \<open>
  The configuration service keeps its lists as JSON text in \<open>localStorage\<close> and reads
  them back with \<open>JSON.parse\<close>. A stored text is represented by the JSON value it
  denotes (\<open>JSON.parse (JSON.stringify v) = v\<close> for every JSON value), so that what the
  code does with a value of the wrong shape stays visible. An object lists each of its
  keys once, in the order \<open>Object.keys\<close> gives them. Numbers only matter through
  their truthiness here; they are integers in the model.
\<close>

datatype json =
    JNull
  | JBool bool
  | JNum int
  | JStr string
  | JArr "json list"
  | JObj "(string \<times> json) list"

datatype error =
    Error string
  | TypeError
  | SyntaxError
  | Rejected "string option"

text \<open>\<open>Rejected m\<close> is a value the hosted model's client throws; \<open>m\<close> is its
  \<open>message\<close> property (\<open>None\<close>: undefined).\<close>

text \<open>JavaScript truthiness of a JSON value (\<open>if (data)\<close>, \<open>!data\<close>).\<close>

fun truthy :: "json \<Rightarrow> bool" where
  "truthy JNull = False"
| "truthy (JBool b) = b"
| "truthy (JNum n) = (n \<noteq> 0)"
| "truthy (JStr s) = (s \<noteq> [])"
| "truthy (JArr xs) = True"
| "truthy (JObj kvs) = True"

text \<open>
  Property access \<open>v.k\<close> for the keys the services read (\<open>id\<close>, \<open>groups\<close>,
  \<open>templates\<close>): on \<open>null\<close> it throws a TypeError, on an object it is the field
  (\<open>None\<close> for undefined), on every other value it is undefined.
\<close>

fun get_prop :: "json \<Rightarrow> string \<Rightarrow> error + json option" where
  "get_prop JNull k = Inl TypeError"
| "get_prop (JObj kvs) k = Inr (map_of kvs k)"
| "get_prop v k = Inr None"

text \<open>Calling an array method (\<open>findIndex\<close>, \<open>filter\<close>) on a value that is not an
  array throws a TypeError.\<close>

fun as_array :: "json \<Rightarrow> error + json list" where
  "as_array (JArr xs) = Inr xs"
| "as_array v = Inl TypeError"

text \<open>\<open>Array.prototype.findIndex\<close>: the first index whose element satisfies the
  callback, \<open>-1\<close> when there is none; a callback that throws ends the search.\<close>

fun findIndex :: "('a \<Rightarrow> error + bool) \<Rightarrow> 'a list \<Rightarrow> error + int" where
  "findIndex p [] = Inr (- 1)"
| "findIndex p (x # xs) =
     (case p x of
        Inl e \<Rightarrow> Inl e
      | Inr b \<Rightarrow>
          if b then Inr 0
          else (case findIndex p xs of
                  Inl e \<Rightarrow> Inl e
                | Inr i \<Rightarrow> Inr (if 0 \<le> i then i + 1 else - 1)))"

text \<open>\<open>Array.prototype.filter\<close>: the callback runs on every element, in order.\<close>

fun filter_js :: "('a \<Rightarrow> error + bool) \<Rightarrow> 'a list \<Rightarrow> error + 'a list" where
  "filter_js p [] = Inr []"
| "filter_js p (x # xs) =
     (case p x of
        Inl e \<Rightarrow> Inl e
      | Inr b \<Rightarrow>
          (case filter_js p xs of
             Inl e \<Rightarrow> Inl e
           | Inr ys \<Rightarrow> Inr (if b then x # ys else ys)))"

section \<open>Configuration records\<close>

text \<open>The records the configuration manager builds (\<open>handleSaveTemplate\<close>,
  \<open>handleSaveGroup\<close>) and their JSON objects, fields in the order they are written.\<close>

record AnalysisTemplate =
  tmpl_id :: string
  tmpl_name :: string
  tmpl_description :: string
  systemInstruction :: string
  customPrompt :: string

record AnalysisGroup =
  group_id :: string
  group_name :: string
  group_description :: string
  templateIds :: "string list"

definition template_json :: "AnalysisTemplate \<Rightarrow> json" where
  "template_json t =
     JObj [(''id'', JStr (tmpl_id t)), (''name'', JStr (tmpl_name t)),
           (''description'', JStr (tmpl_description t)),
           (''systemInstruction'', JStr (systemInstruction t)),
           (''customPrompt'', JStr (customPrompt t))]"

definition group_json :: "AnalysisGroup \<Rightarrow> json" where
  "group_json g =
     JObj [(''id'', JStr (group_id g)), (''name'', JStr (group_name g)),
           (''description'', JStr (group_description g)),
           (''templateIds'', JArr (map JStr (templateIds g)))]"

section \<open>The file system service\<close>

text \<open>
  A file holds a text; \<open>JsonText v\<close> is a text that parses to \<open>v\<close>, \<open>RawText s\<close> any
  other content. A directory is the list of its entries. \<open>rootHandle\<close> is the directory
  the service holds (\<open>None\<close>: \<open>null\<close>): the one \<open>selectDirectory\<close> stored when the
  user chose a folder (that folder, or the \<open>ERP_AI\<close> folder opened inside it) or
  \<open>setRootHandle\<close> restored. \<open>granted\<close> says whether the browser lets the handle be used: when it
  does not, every operation on a handle throws.
\<close>

datatype content = JsonText json | RawText string

datatype entry = File content | Folder "(string \<times> entry) list"

type_synonym directory = "(string \<times> entry) list"

record state =
  localStorage :: "string \<rightharpoonup> json"
  rootHandle :: "directory option"
  granted :: bool

definition isHandleReady :: "state \<Rightarrow> bool" where
  "isHandleReady st = (rootHandle st \<noteq> None)"

text \<open>\<open>getDirectoryHandle(name, {create: true})\<close> on the root: the subdirectory of
  that name, created empty when absent; it throws when the handle may not be used or
  the name is taken by a file.\<close>

definition getDirectoryHandle :: "string \<Rightarrow> state \<Rightarrow> error + directory \<times> state" where
  "getDirectoryHandle name st =
     (case rootHandle st of
        None \<Rightarrow> Inl TypeError
      | Some root \<Rightarrow>
          if \<not> granted st \<or> name = [] then Inl TypeError
          else (case map_of root name of
                  None \<Rightarrow> Inr ([], st\<lparr>rootHandle := Some (root @ [(name, Folder [])])\<rparr>)
                | Some (Folder es) \<Rightarrow> Inr (es, st)
                | Some (File c) \<Rightarrow> Inl TypeError))"

definition getDir :: "string \<Rightarrow> state \<Rightarrow> directory option \<times> state" where
  "getDir name st =
     (if rootHandle st = None then (None, st)
      else (case getDirectoryHandle name st of
              Inl e \<Rightarrow> (None, st)
            | Inr (d, st') \<Rightarrow> (Some d, st')))"

text \<open>\<open>getFileHandle(fileName, {create: true})\<close>, \<open>createWritable\<close>, \<open>write\<close> and
  \<open>close\<close> on a directory: the file of that name now holds the content.\<close>

definition write_entry :: "bool \<Rightarrow> string \<Rightarrow> content \<Rightarrow> directory \<Rightarrow> error + directory" where
  "write_entry ok fileName c d =
     (if \<not> ok \<or> fileName = [] then Inl TypeError
      else (case map_of d fileName of
              Some (Folder es) \<Rightarrow> Inl TypeError
            | _ \<Rightarrow> Inr (AList.update fileName (File c) d)))"

definition writeBinaryFile :: "string \<Rightarrow> string \<Rightarrow> content \<Rightarrow> state \<Rightarrow> state" where
  "writeBinaryFile dirName fileName c st =
     (if dirName = [] then
        (case rootHandle st of
           None \<Rightarrow> st
         | Some root \<Rightarrow>
             (case write_entry (granted st) fileName c root of
                Inl e \<Rightarrow> st
              | Inr root' \<Rightarrow> st\<lparr>rootHandle := Some root'\<rparr>))
      else
        (case getDir dirName st of
           (None, st') \<Rightarrow> st'
         | (Some d, st') \<Rightarrow>
             (case write_entry (granted st') fileName c d of
                Inl e \<Rightarrow> st'
              | Inr d' \<Rightarrow>
                  st'\<lparr>rootHandle :=
                        map_option (AList.update dirName (Folder d')) (rootHandle st')\<rparr>)))"

text \<open>The files of a directory with their texts, in the order the directory lists
  them; subdirectories are skipped.\<close>

fun file_entries :: "directory \<Rightarrow> (string \<times> content) list" where
  "file_entries [] = []"
| "file_entries ((n, File c) # es) = (n, c) # file_entries es"
| "file_entries ((n, Folder d) # es) = file_entries es"

definition readAllFiles :: "string \<Rightarrow> state \<Rightarrow> (string \<times> content) list \<times> state" where
  "readAllFiles dirName st =
     (case (if dirName = [] then (rootHandle st, st) else getDir dirName st) of
        (None, st') \<Rightarrow> ([], st')
      | (Some d, st') \<Rightarrow> (if granted st' then file_entries d else [], st'))"

section \<open>The configuration service\<close>

definition TEMPLATES :: string where
  "TEMPLATES = ''app_templates''"

definition GROUPS :: string where
  "GROUPS = ''app_groups''"

definition CONFIG_FILENAME :: string where
  "CONFIG_FILENAME = ''EXCEL_AI.json''"

definition save :: "string \<Rightarrow> json \<Rightarrow> state \<Rightarrow> state" where
  "save key data st = st\<lparr>localStorage := (localStorage st)(key \<mapsto> data)\<rparr>"

definition load :: "string \<Rightarrow> state \<Rightarrow> json" where
  "load key st = (case localStorage st key of None \<Rightarrow> JArr [] | Some v \<Rightarrow> v)"

definition getTemplates :: "state \<Rightarrow> json" where
  "getTemplates st = load TEMPLATES st"

definition getGroups :: "state \<Rightarrow> json" where
  "getGroups st = load GROUPS st"

text \<open>\<open>exportConfigData\<close>; \<open>now\<close> is what \<open>new Date().toISOString()\<close> returns.\<close>

definition exportConfigData :: "string \<Rightarrow> state \<Rightarrow> json" where
  "exportConfigData now st =
     JObj [(''groups'', load GROUPS st), (''templates'', load TEMPLATES st),
           (''exportedAt'', JStr now), (''version'', JStr ''3.0'')]"

text \<open>\<open>syncToDisk\<close>: the document is built when it is called, and the write is
  taken to be complete when it returns (the callers do not wait for it). Nothing in its
  \<open>try\<close> block throws in the model (\<open>writeBinaryFile\<close> catches its own errors), so
  the \<open>catch\<close> branch has no counterpart.\<close>

definition syncToDisk :: "string \<Rightarrow> state \<Rightarrow> bool \<times> state" where
  "syncToDisk now st =
     (if \<not> isHandleReady st then (False, st)
      else
        let configObject = exportConfigData now st
        in (True, writeBinaryFile [] CONFIG_FILENAME (JsonText configObject) st))"

text \<open>\<open>t.id === i\<close> for a string \<open>i\<close>.\<close>

definition id_is :: "string \<Rightarrow> json \<Rightarrow> error + bool" where
  "id_is i t = (case get_prop t ''id'' of Inl e \<Rightarrow> Inl e | Inr v \<Rightarrow> Inr (v = Some (JStr i)))"

definition id_is_not :: "string \<Rightarrow> json \<Rightarrow> error + bool" where
  "id_is_not i t = (case get_prop t ''id'' of Inl e \<Rightarrow> Inl e | Inr v \<Rightarrow> Inr (v \<noteq> Some (JStr i)))"

definition saveTemplate :: "string \<Rightarrow> AnalysisTemplate \<Rightarrow> state \<Rightarrow> error + state" where
  "saveTemplate now tmpl st =
     (case as_array (load TEMPLATES st) of
        Inl e \<Rightarrow> Inl e
      | Inr list \<Rightarrow>
          (case findIndex (id_is (tmpl_id tmpl)) list of
             Inl e \<Rightarrow> Inl e
           | Inr index \<Rightarrow>
               let list' = (if 0 \<le> index then list[nat index := template_json tmpl]
                            else list @ [template_json tmpl])
               in Inr (snd (syncToDisk now (save TEMPLATES (JArr list') st)))))"

definition deleteTemplate :: "string \<Rightarrow> string \<Rightarrow> state \<Rightarrow> error + state" where
  "deleteTemplate now i st =
     (case as_array (load TEMPLATES st) of
        Inl e \<Rightarrow> Inl e
      | Inr xs \<Rightarrow>
          (case filter_js (id_is_not i) xs of
             Inl e \<Rightarrow> Inl e
           | Inr list \<Rightarrow> Inr (snd (syncToDisk now (save TEMPLATES (JArr list) st)))))"

definition saveGroup :: "string \<Rightarrow> AnalysisGroup \<Rightarrow> state \<Rightarrow> error + state" where
  "saveGroup now grp st =
     (case as_array (load GROUPS st) of
        Inl e \<Rightarrow> Inl e
      | Inr list \<Rightarrow>
          (case findIndex (id_is (group_id grp)) list of
             Inl e \<Rightarrow> Inl e
           | Inr index \<Rightarrow>
               let list' = (if 0 \<le> index then list[nat index := group_json grp]
                            else list @ [group_json grp])
               in Inr (snd (syncToDisk now (save GROUPS (JArr list') st)))))"

definition deleteGroup :: "string \<Rightarrow> string \<Rightarrow> state \<Rightarrow> error + state" where
  "deleteGroup now i st =
     (case as_array (load GROUPS st) of
        Inl e \<Rightarrow> Inl e
      | Inr xs \<Rightarrow>
          (case filter_js (id_is_not i) xs of
             Inl e \<Rightarrow> Inl e
           | Inr list \<Rightarrow> Inr (snd (syncToDisk now (save GROUPS (JArr list) st)))))"

text \<open>\<open>field\<close> is the value of a property, \<open>None\<close> where \<open>get_prop\<close> gives
  undefined or throws.\<close>

definition field :: "json \<Rightarrow> string \<Rightarrow> json option" where
  "field v k = (case get_prop v k of Inl e \<Rightarrow> None | Inr r \<Rightarrow> r)"

text \<open>\<open>importConfigData\<close>: a falsy document is refused; a truthy \<open>groups\<close> or
  \<open>templates\<close> property is stored as it is. In every operation of the service the
  throws come before the first write, so an error result \<open>Inl e\<close> leaves the state as
  it was.\<close>

definition importConfigData :: "json \<Rightarrow> state \<Rightarrow> error + state" where
  "importConfigData data st =
     (if \<not> truthy data then Inl (Error ''Invalid config file'')
      else
        (case get_prop data ''groups'' of
           Inl e \<Rightarrow> Inl e
         | Inr g \<Rightarrow>
             let st1 = (case g of
                          None \<Rightarrow> st
                        | Some v \<Rightarrow> if truthy v then save GROUPS v st else st)
             in (case get_prop data ''templates'' of
                   Inl e \<Rightarrow> Inl e
                 | Inr t \<Rightarrow>
                     Inr (case t of
                            None \<Rightarrow> st1
                          | Some v \<Rightarrow> if truthy v then save TEMPLATES v st1 else st1))))"

text \<open>What a stored list is after an import, given the document's field and the
  list stored before: a truthy field replaces it.\<close>

definition import_field :: "json option \<Rightarrow> json \<Rightarrow> json" where
  "import_field f old = (case f of None \<Rightarrow> old | Some v \<Rightarrow> if truthy v then v else old)"

text \<open>\<open>JSON.parse\<close> of a file's text.\<close>

fun parse_content :: "content \<Rightarrow> error + json" where
  "parse_content (JsonText v) = Inr v"
| "parse_content (RawText s) = Inl SyntaxError"

text \<open>\<open>loadAutoConfig\<close>: every error inside its \<open>try\<close> block ends in
  \<open>return false\<close>.\<close>

definition loadAutoConfig :: "state \<Rightarrow> bool \<times> state" where
  "loadAutoConfig st =
     (if \<not> isHandleReady st then (False, st)
      else
        (case readAllFiles [] st of
           (files, st') \<Rightarrow>
             (case find (\<lambda>f. fst f = CONFIG_FILENAME) files of
                None \<Rightarrow> (False, st')
              | Some configFile \<Rightarrow>
                  (case parse_content (snd configFile) of
                     Inl e \<Rightarrow> (False, st')
                   | Inr json \<Rightarrow>
                       (case importConfigData json st' of
                          Inl e \<Rightarrow> (False, st')
                        | Inr st'' \<Rightarrow> (True, st''))))))"


section \<open>The analysis request\<close>

text \<open>
  \<open>analyzeDataWithGemini\<close> builds one request and sends it to the hosted model. The
  platform is a parameter: the API key of the environment, \<open>JSON.stringify\<close>,
  \<open>JSON.parse\<close> (\<open>None\<close>: it throws a SyntaxError) and the model's client, which
  answers the \<open>n\<close>-th call with a response or throws. Texts are byte strings; the two
  Chinese characters of the default instruction are their UTF-8 bytes. Logging is not
  modelled.
\<close>

datatype Language = zh_TW | en_US | vi_VN

type_synonym ExcelDataRow = "(string \<times> json) list"

record ChatAttachment =
  mimeType :: string
  att_content :: string

record ChatMessage =
  msg_role :: string
  msg_content :: string
  msg_attachment :: "ChatAttachment option"

text \<open>The response schema: a string (with its description and the values allowed),
  an array (its items, its description), an object (its properties, the required
  ones).\<close>

datatype schema =
    STRING "string option" "string list option"
  | ARRAY schema "string option"
  | OBJECT "(string \<times> schema) list" "string list"

text \<open>The schema of one chart descriptor (the items of \<open>charts\<close>), then the
  schema of the whole answer.\<close>

definition chartSchema :: schema where
  "chartSchema =
     OBJECT
       [(''id'', STRING None None),
        (''title'', STRING None None),
        (''type'',
           STRING None (Some [''bar'', ''line'', ''area'', ''pie'', ''scatter'', ''radar''])),
        (''xAxisKey'',
           STRING (Some ''Exact column name to use for the X-axis (category).'') None),
        (''dataKey'',
           STRING (Some ''Exact column name to use for the Y-axis (numerical value).'') None),
        (''description'', STRING (Some ''Why this chart is relevant.'') None)]
       [''id'', ''title'', ''type'', ''xAxisKey'', ''dataKey'', ''description'']"

definition analysisSchema :: schema where
  "analysisSchema =
     OBJECT
       [(''summary'',
           STRING (Some ''A professional executive summary of the dataset suitable for ERP reporting. If answering a user question, address it here.'') None),
        (''keyInsights'',
           ARRAY (STRING None None)
             (Some ''List of 3-5 specific, actionable insights derived from the data trends.'')),
        (''charts'', ARRAY chartSchema None)]
       [''summary'', ''keyInsights'', ''charts'']"

datatype part = InlineData string string | Text string

record request =
  model :: string
  parts :: "part list"
  responseMimeType :: string
  responseSchema :: schema
  config_systemInstruction :: string

datatype response = Response (resp_text: "string option")

datatype outcome = Throws "string option" | Responds response

datatype event = Request request | Delay nat

record platform =
  apiKey :: "string option"
  stringify :: "json \<Rightarrow> string"
  parse :: "string \<Rightarrow> json option"
  generateContent :: "nat \<Rightarrow> request \<Rightarrow> outcome"

definition createAIClient :: "string option \<Rightarrow> error + string" where
  "createAIClient key =
     (case key of
        None \<Rightarrow> Inl (Error ''API Key is missing. Please ensure process.env.API_KEY is configured.'')
      | Some k \<Rightarrow>
          if k = [] then Inl (Error ''API Key is missing. Please ensure process.env.API_KEY is configured.'')
          else Inr k)"

text \<open>\<open>String.prototype.includes\<close>, \<open>Array.prototype.join\<close>, \<open>toUpperCase\<close> on the
  letters a to z, and the decimal digits of a number.\<close>

definition includes_js :: "string \<Rightarrow> string \<Rightarrow> bool" where
  "includes_js s sub = sublist sub s"

fun join :: "string \<Rightarrow> string list \<Rightarrow> string" where
  "join sep [] = []"
| "join sep [x] = x"
| "join sep (x # y # ys) = x @ sep @ join sep (y # ys)"

definition toUpperCase :: "string \<Rightarrow> string" where
  "toUpperCase s =
     map (\<lambda>c. let n = (of_char c :: nat) in if 97 \<le> n \<and> n \<le> 122 then char_of (n - 32) else c) s"

fun digits :: "nat \<Rightarrow> string" where
  "digits n =
     (if n < 10 then [char_of (48 + n)] else digits (n div 10) @ [char_of (48 + n mod 10)])"

definition sampleSize :: nat where
  "sampleSize = 40"

fun languageName :: "Language \<Rightarrow> string" where
  "languageName zh_TW = ''Traditional Chinese (Taiwan)''"
| "languageName en_US = ''English''"
| "languageName vi_VN = ''Vietnamese''"

text \<open>\<open>Object.keys(dataSample[0] || {}).join(', ')\<close>.\<close>

definition headers_of :: "ExcelDataRow list \<Rightarrow> string" where
  "headers_of dataSample = join '', '' (case dataSample of [] \<Rightarrow> [] | r # rs \<Rightarrow> map fst r)"

text \<open>The rows as the JSON array \<open>JSON.stringify\<close> is given.\<close>

definition rows_json :: "ExcelDataRow list \<Rightarrow> json" where
  "rows_json rows = JArr (map JObj rows)"

text \<open>\<open>templates && templates.length > 0\<close>.\<close>

fun has_templates :: "AnalysisTemplate list option \<Rightarrow> bool" where
  "has_templates None = False"
| "has_templates (Some ts) = (ts \<noteq> [])"

definition roleInstruction :: "AnalysisTemplate list option \<Rightarrow> string \<Rightarrow> string" where
  \<open>roleInstruction templates langName =
     (if has_templates templates then
        join ''\<newline>\<newline>'' (map systemInstruction (the templates)) @
        ''. Always respond in '' @
        langName @
        ''.''
      else
        ''You are a Senior ERP Data Analysis Consultant specializing in Digiwin Workflow ERP ('' @
        [CHR 0xE9, CHR 0xBC, CHR 0x8E, CHR 0xE6, CHR 0x96, CHR 0xB0] @
        '' ERP). Your goal is to provide actionable business intelligence. Always respond in '' @
        langName @
        ''.'')\<close>

definition templatePrompt :: "AnalysisTemplate \<Rightarrow> string" where
  \<open>templatePrompt t =
     ''[Template: '' @
     tmpl_name t @
     '']\<newline>'' @
     customPrompt t\<close>

definition baseContext ::
  "(json \<Rightarrow> string) \<Rightarrow> AnalysisTemplate list option \<Rightarrow> string \<Rightarrow> ExcelDataRow list \<Rightarrow> string" where
  \<open>baseContext str templates headers dataSample =
     (if has_templates templates then
        ''\<newline>'' @
        ''       '' @
        join ''\<newline>\<newline>'' (map templatePrompt (the templates)) @
        ''\<newline>\<newline>'' @
        ''       I have provided a dataset.\<newline>'' @
        ''       Column Headers: '' @
        headers @
        ''\<newline>'' @
        ''       Sample Data: '' @
        str (rows_json dataSample) @
        ''\<newline>'' @
        ''     ''
      else
        ''\<newline>'' @
        ''    **Context:**\<newline>'' @
        ''    The user has uploaded an Excel export from Digiwin Workflow ERP. Analyze the column headers to determine the module (Sales, Inventory, Production, Purchase, Finance).\<newline>\<newline>'' @
        ''    **Common Digiwin ERP Patterns & Analysis Strategies:**\<newline>'' @
        ''    1. **Sales (COP)**: 'Customer', 'Sales Order', 'Product', 'Qty', 'Amount', 'Gross Margin'. \<newline>'' @
        ''       - *Charts*: Sales Trends (Line), Top Customers (Bar), Profit Margin (Bar).\<newline>'' @
        ''    2. **Inventory (INV)**: 'Warehouse', 'Item No', 'Stock Qty', 'Safety Stock', 'Aging Days'. \<newline>'' @
        ''       - *Charts*: Stock by Warehouse (Bar/Pie), Aging Analysis (Bar), Stock vs Safety (Line).\<newline>'' @
        ''    3. **Production (MO/SFC)**: 'MO No', 'Work Center', 'Planned Qty', 'Completed Qty', 'Scrap', 'Efficiency', 'Completion Rate'. \<newline>'' @
        ''       - *Charts*: Yield Rate (Line), Output by Line (Bar), Scrap Reasons (Pie).\<newline>'' @
        ''       - *Logic*: If user asks for 'Completion Rate', use the 'Rate' column. If 'Count of MO', use 'MO No'.\<newline>'' @
        ''    4. **Purchase (PUR)**: 'Vendor', 'PO No', 'Qty', 'Price', 'Delivery Date'. \<newline>'' @
        ''       - *Charts*: Spend by Vendor (Bar), Price Trends (Line).\<newline>\<newline>'' @
        ''    **Analysis Rules:**\<newline>'' @
        ''    1. **Data Consistency**: 'dataKey' MUST be a numeric field. 'xAxisKey' MUST be a category or date field.\<newline>'' @
        ''    2. **Chart Selection**:\<newline>'' @
        ''       - Use **Line Chart** for dates/time trends (e.g., Daily/Monthly).\<newline>'' @
        ''       - Use **Bar Chart** for comparing categories (e.g., Sales by Customer).\<newline>'' @
        ''       - Use **Pie Chart** ONLY for small sets (< 8 categories).\<newline>'' @
        ''       - Use **Scatter/Radar** for complex multi-metric comparisons.\<newline>'' @
        ''    3. **Aggregation Logic** (Internal): \<newline>'' @
        ''       - If you choose a column with "ID", "No", or "Code" as 'dataKey', the system will automatically *COUNT* occurrences.\<newline>'' @
        ''       - If you choose a column with "Rate", "Percent", "Avg" as 'dataKey', the system will automatically *AVERAGE* it.\<newline>'' @
        ''       - Otherwise, it will *SUM* the values.\<newline>'' @
        ''    \<newline>'' @
        ''    **Dataset Info:**\<newline>'' @
        ''    - Headers: '' @
        headers @
        ''\<newline>'' @
        ''    - Sample Data (first '' @
        digits sampleSize @
        '' rows): '' @
        str (rows_json dataSample) @
        ''\<newline>'' @
        ''    '')\<close>

text \<open>\<open>userPrompt || (history && history.length > 0)\<close>, \<open>history.slice(-6)\<close> and the
  line of one message of the history.\<close>

fun nonempty :: "'a list option \<Rightarrow> bool" where
  "nonempty None = False"
| "nonempty (Some xs) = (xs \<noteq> [])"

definition historyLine :: "ChatMessage \<Rightarrow> string" where
  \<open>historyLine msg =
     toUpperCase (msg_role msg) @
     '': '' @
     msg_content msg @
     '' '' @
     (if msg_attachment msg \<noteq> None then ''[Image Attached]'' else [])\<close>

definition taskPrompt ::
  "string option \<Rightarrow> ChatAttachment option \<Rightarrow> ChatMessage list option \<Rightarrow> string \<Rightarrow> string" where
  \<open>taskPrompt userPrompt img history langName =
     (if nonempty userPrompt \<or> nonempty history then
        ''\<newline>'' @
        ''      **USER REQUEST:** "'' @
        (if nonempty userPrompt then the userPrompt else ''Based on previous context'') @
        ''"\<newline>\<newline>'' @
        ''      **Your Task:**\<newline>'' @
        ''      1.  **Analyze**: Answer the User Request specifically using the provided data history.\<newline>'' @
        ''      2.  **Summary**: Update the 'summary' to directly answer the question or explain the new perspective.\<newline>'' @
        ''      3.  **Charts**: Generate NEW specific 'charts' that visualize the answer. \<newline>'' @
        ''          - *CRITICAL*: 'dataKey' MUST be a numeric column from the JSON. 'xAxisKey' MUST be a categorical or date column.\<newline>'' @
        ''      4.  **Insights**: Update 'keyInsights' to be relevant to this specific request.\<newline>'' @
        ''      5.  **Language**: Output STRICTLY in '' @
        langName @
        ''.\<newline>'' @
        ''    '' @
        (if img \<noteq> None then
           ''\<newline>'' @
           ''**Image Context**: The user has attached an image. Use visual cues from it to inform your analysis if relevant.''
         else []) @
        (if nonempty history then
           ''\<newline>'' @
           ''**Conversation History** (for context only):\<newline>'' @
           join ''\<newline>'' (map historyLine (drop (length (the history) - 6) (the history)))
         else [])
      else
        ''\<newline>'' @
        ''      **Your Task:**\<newline>'' @
        ''      Perform a comprehensive analysis of the provided ERP dataset.\<newline>\<newline>'' @
        ''      1.  **Executive Summary**: Write a professional summary of what this data represents. Identify high-level trends and anomalies.\<newline>'' @
        ''      2.  **Key Insights**: Provide 3-5 specific, actionable bullet points. \<newline>'' @
        ''          - Focus on: "What is wrong?", "What is good?", "What should we do?".\<newline>'' @
        ''          - Example: "Production efficiency dropped 15% in Line A due to high scrap rates."\<newline>'' @
        ''      3.  **Strategic Charts**: Suggest up to 4 charts to best visualize performance.\<newline>'' @
        ''          - Choose the most relevant metrics (e.g., Amount, Qty, Rate).\<newline>'' @
        ''      \<newline>'' @
        ''      **Language**: Output STRICTLY in '' @
        langName @
        ''.\<newline>'' @
        ''    '')\<close>

definition build_request ::
  "(json \<Rightarrow> string) \<Rightarrow> ExcelDataRow list \<Rightarrow> Language \<Rightarrow> string option \<Rightarrow>
   ChatAttachment option \<Rightarrow> ChatMessage list option \<Rightarrow> AnalysisTemplate list option \<Rightarrow> request" where
  "build_request str data language userPrompt img history templates =
     (let dataSample = take sampleSize data;
          headers = headers_of dataSample;
          langName = languageName language;
          prompt = baseContext str templates headers dataSample @
                   taskPrompt userPrompt img history langName
      in \<lparr>model = ''gemini-2.5-flash'',
          parts = (case img of
                     None \<Rightarrow> [Text prompt]
                   | Some a \<Rightarrow> [InlineData (mimeType a) (att_content a), Text prompt]),
          responseMimeType = ''application/json'',
          responseSchema = analysisSchema,
          config_systemInstruction = roleInstruction templates langName\<rparr>)"

text \<open>The condition under which the first error leads to a second request.\<close>

definition retry_condition :: "string option \<Rightarrow> bool" where
  "retry_condition msg =
     (case msg of
        None \<Rightarrow> False
      | Some m \<Rightarrow>
          m \<noteq> [] \<and>
          (includes_js m ''500'' \<or> includes_js m ''xhr'' \<or> includes_js m ''fetch'' \<or> includes_js m ''Rpc''))"

text \<open>What the call returns for a response: the parsed text, or an error when there
  is no text.\<close>

definition result_of :: "(string \<Rightarrow> json option) \<Rightarrow> response \<Rightarrow> error + json" where
  "result_of prs r =
     (case resp_text r of
        None \<Rightarrow> Inl (Error ''No response generated from AI.'')
      | Some t \<Rightarrow>
          if t = [] then Inl (Error ''No response generated from AI.'')
          else (case prs t of None \<Rightarrow> Inl SyntaxError | Some v \<Rightarrow> Inr v))"

text \<open>\<open>analyzeDataWithGemini\<close>: the events in the order they happen (requests sent,
  milliseconds waited) and what the caller gets.\<close>

definition analyzeDataWithGemini ::
  "platform \<Rightarrow> ExcelDataRow list \<Rightarrow> Language \<Rightarrow> string option \<Rightarrow> ChatAttachment option \<Rightarrow>
   ChatMessage list option \<Rightarrow> AnalysisTemplate list option \<Rightarrow> event list \<times> (error + json)" where
  "analyzeDataWithGemini env data language userPrompt img history templates =
     (case createAIClient (apiKey env) of
        Inl e \<Rightarrow> ([], Inl e)
      | Inr ai \<Rightarrow>
          let req = build_request (stringify env) data language userPrompt img history templates
          in (case generateContent env 0 req of
                Responds r \<Rightarrow> ([Request req], result_of (parse env) r)
              | Throws msg \<Rightarrow>
                  if retry_condition msg then
                    (case generateContent env 1 req of
                       Responds r \<Rightarrow>
                         ([Request req, Delay 1000, Request req], result_of (parse env) r)
                     | Throws msg2 \<Rightarrow>
                         ([Request req, Delay 1000, Request req], Inl (Rejected msg2)))
                  else ([Request req], Inl (Rejected msg))))"

section \<open>Choosing the directory\<close>

text \<open>
  \<open>selectDirectory\<close> asks the browser for a folder and makes a handle the service's
  root. The browser is a parameter: \<open>showDirectoryPicker\<close> (\<open>None\<close>: undefined) gives
  the name and the entries of the folder the user picks, or throws;
  \<open>subfolder_allowed\<close> says whether the picked folder lets a subfolder be opened or
  created; \<open>idb_put\<close> is what storing the handle throws, if it throws. A thrown value
  has a name and a message. A handle is a reference: \<open>handle_path\<close> is where it points
  below the picked folder (\<open>[]\<close>: the picked folder itself), \<open>handle_entries\<close> the
  entries of the directory it points to.
\<close>

datatype thrown = Thrown (thrown_name: string) (thrown_message: "string option")

datatype pick = Picks string directory | PickThrows thrown

record browser =
  showDirectoryPicker :: "pick option"
  subfolder_allowed :: bool
  idb_put :: "thrown option"

record handle =
  handle_name :: string
  handle_path :: "string list"
  handle_entries :: directory

text \<open>\<open>handle.getDirectoryHandle(name, {create: true})\<close> on the picked folder: the
  entries of the subfolder and of the picked folder afterwards; \<open>None\<close> when it
  throws.\<close>

definition open_subfolder :: "bool \<Rightarrow> string \<Rightarrow> directory \<Rightarrow> (directory \<times> directory) option" where
  "open_subfolder ok name d =
     (if \<not> ok \<or> name = [] then None
      else (case map_of d name of
              None \<Rightarrow> Some ([], d @ [(name, Folder [])])
            | Some (Folder es) \<Rightarrow> Some (es, d)
            | Some (File c) \<Rightarrow> None))"

text \<open>The handle the selection ends with: the \<open>ERP_AI\<close> folder inside the picked
  folder, unless the picked folder has that name or the subfolder cannot be opened.\<close>

definition resolve_handle :: "bool \<Rightarrow> string \<Rightarrow> directory \<Rightarrow> handle" where
  "resolve_handle ok name d =
     (if name \<noteq> ''ERP_AI'' then
        (case open_subfolder ok ''ERP_AI'' d of
           Some (sub, d') \<Rightarrow>
             \<lparr>handle_name = ''ERP_AI'', handle_path = [''ERP_AI''], handle_entries = sub\<rparr>
         | None \<Rightarrow> \<lparr>handle_name = name, handle_path = [], handle_entries = d\<rparr>)
      else \<lparr>handle_name = name, handle_path = [], handle_entries = d\<rparr>)"

text \<open>What the \<open>catch\<close> block of \<open>selectDirectory\<close> throws for an error it caught.\<close>

definition rethrow :: "thrown \<Rightarrow> thrown" where
  \<open>rethrow e =
     (if thrown_name e = ''AbortError'' then e
      else if (case thrown_message e of
                 None \<Rightarrow> False
               | Some m \<Rightarrow> m \<noteq> [] \<and>
                   (includes_js m ''Cross origin'' \<or> includes_js m ''SecurityError''))
      then Thrown ''Error'' (Some ''Local file storage is blocked in this embedded preview. Please open the app in a new tab or full window to use this feature.'')
      else e)\<close>

text \<open>\<open>selectDirectory\<close>: what the caller gets and the state afterwards. The root
  handle is set before the handle is stored, so it stays set when storing throws. The
  picker is asked for read and write access, so the handle may be used.\<close>

definition selectDirectory :: "browser \<Rightarrow> state \<Rightarrow> (thrown + string) \<times> state" where
  "selectDirectory b st =
     (case showDirectoryPicker b of
        None \<Rightarrow>
          (Inl (Thrown ''Error'' (Some ''This browser does not support the File System Access API.'')),
           st)
      | Some (PickThrows e) \<Rightarrow> (Inl (rethrow e), st)
      | Some (Picks name d) \<Rightarrow>
          let handle = resolve_handle (subfolder_allowed b) name d;
              st' = st\<lparr>rootHandle := Some (handle_entries handle), granted := True\<rparr>
          in (case idb_put b of
                None \<Rightarrow> (Inr (handle_name handle), st')
              | Some e \<Rightarrow> (Inl (rethrow e), st')))"

text \<open>The entries of the folder the user picked, given its entries \<open>d\<close> when it was
  picked, the handle the selection ended with and the entries \<open>root\<close> now behind the
  root handle: the root handle's directory is the picked folder itself or its
  \<open>ERP_AI\<close> entry.\<close>

definition picked_folder :: "handle \<Rightarrow> directory \<Rightarrow> directory \<Rightarrow> directory" where
  "picked_folder h d root =
     (if handle_path h = [] then root else AList.update ''ERP_AI'' (Folder root) d)"

section \<open>What the claims say, as predicates\<close>

text \<open>The message of an error contains one of the network or server substrings.\<close>

definition network_substrings :: "string list" where
  "network_substrings = [''500'', ''xhr'', ''fetch'', ''Rpc'']"

definition message_matches :: "string option \<Rightarrow> bool" where
  "message_matches msg =
     (case msg of None \<Rightarrow> False | Some m \<Rightarrow> list_ex (\<lambda>s. sublist s m) network_substrings)"

text \<open>
  What the hosted model promises for a response schema: a value conforms to a string
  schema when it is a string (one of the allowed values, when they are listed), to an
  array schema when it is an array of conforming items, to an object schema when it is
  an object that has every required property and whose listed properties, where
  present, conform.
\<close>

fun conforms :: "schema \<Rightarrow> json \<Rightarrow> bool" where
  "conforms (STRING d en) v =
     (case v of
        JStr s \<Rightarrow> (case en of None \<Rightarrow> True | Some vals \<Rightarrow> s \<in> set vals)
      | _ \<Rightarrow> False)"
| "conforms (ARRAY items d) v =
     (case v of JArr xs \<Rightarrow> list_all (conforms items) xs | _ \<Rightarrow> False)"
| "conforms (OBJECT props req) v =
     (case v of
        JObj kvs \<Rightarrow>
          list_all (\<lambda>k. map_of kvs k \<noteq> None) req \<and>
          list_all (\<lambda>(k, s). case map_of kvs k of None \<Rightarrow> True | Some x \<Rightarrow> conforms s x) props
      | _ \<Rightarrow> False)"

text \<open>The hosted model honours the schema of the request: every text it answers with
  parses to a value that conforms to it.\<close>

definition service_honours_schema :: "platform \<Rightarrow> bool" where
  "service_honours_schema env =
     (\<forall>n req t. generateContent env n req = Responds (Response (Some t)) \<longrightarrow> t \<noteq> [] \<longrightarrow>
        (\<exists>v. parse env t = Some v \<and> conforms (responseSchema req) v))"

text \<open>The result the specification describes: a summary string, a list of insight
  strings, and a list of chart descriptors, each with an id, a title, a type among the
  six chart types, an x-axis key, a data key and a description.\<close>

definition is_string_field :: "json \<Rightarrow> string \<Rightarrow> bool" where
  "is_string_field v k = (case field v k of Some (JStr s) \<Rightarrow> True | _ \<Rightarrow> False)"

fun is_string :: "json \<Rightarrow> bool" where
  "is_string (JStr s) = True"
| "is_string v = False"

definition chart_types :: "string list" where
  "chart_types = [''bar'', ''line'', ''area'', ''pie'', ''scatter'', ''radar'']"

definition is_chart :: "json \<Rightarrow> bool" where
  "is_chart c =
     (is_string_field c ''id'' \<and> is_string_field c ''title'' \<and>
      (case field c ''type'' of Some (JStr s) \<Rightarrow> s \<in> set chart_types | _ \<Rightarrow> False) \<and>
      is_string_field c ''xAxisKey'' \<and> is_string_field c ''dataKey'' \<and>
      is_string_field c ''description'')"

definition is_analysis_result :: "json \<Rightarrow> bool" where
  "is_analysis_result v =
     (is_string_field v ''summary'' \<and>
      (case field v ''keyInsights'' of Some (JArr xs) \<Rightarrow> list_all is_string xs | _ \<Rightarrow> False) \<and>
      (case field v ''charts'' of Some (JArr cs) \<Rightarrow> list_all is_chart cs | _ \<Rightarrow> False))"

text \<open>A response without text: \<open>response.text\<close> is undefined or empty.\<close>

definition no_text :: "response \<Rightarrow> bool" where
  "no_text r = (resp_text r = None \<or> resp_text r = Some [])"

section \<open>Example data\<close>

definition tmplA :: AnalysisTemplate where
  "tmplA = \<lparr>tmpl_id = ''a'', tmpl_name = ''Sales'', tmpl_description = [],
             systemInstruction = ''You are an analyst'', customPrompt = []\<rparr>"

definition tmplB :: AnalysisTemplate where
  "tmplB = \<lparr>tmpl_id = ''b'', tmpl_name = ''Stock'', tmpl_description = [],
             systemInstruction = ''You are an auditor'', customPrompt = []\<rparr>"

definition tmplA2 :: AnalysisTemplate where
  "tmplA2 = \<lparr>tmpl_id = ''a'', tmpl_name = ''Sales v2'', tmpl_description = [],
             systemInstruction = ''You are an analyst'', customPrompt = []\<rparr>"

definition groupA :: AnalysisGroup where
  "groupA = \<lparr>group_id = ''a'', group_name = ''Monthly'', group_description = [],
              templateIds = [''a'', ''b'']\<rparr>"

definition groupB :: AnalysisGroup where
  "groupB = \<lparr>group_id = ''b'', group_name = ''Weekly'', group_description = [],
              templateIds = [''b'']\<rparr>"

definition groupA2 :: AnalysisGroup where
  "groupA2 = \<lparr>group_id = ''a'', group_name = ''Monthly'', group_description = ''new'',
              templateIds = [''a'']\<rparr>"

definition store0 :: state where
  "store0 = \<lparr>localStorage = [TEMPLATES \<mapsto> JArr [template_json tmplA, template_json tmplB],
                                GROUPS \<mapsto> JArr [group_json groupA, group_json groupB]],
             rootHandle = None, granted = False\<rparr>"


definition disk0 :: directory where
  "disk0 = [(''notes.txt'', File (RawText ''hello''))]"

definition store1 :: state where
  "store1 = store0\<lparr>rootHandle := Some disk0, granted := True\<rparr>"

text \<open>Platforms whose model throws: twice, or once with a message that does not match.\<close>

definition failing_twice :: platform where
  "failing_twice =
     \<lparr>apiKey = Some ''key'', stringify = (\<lambda>v. ''[]''), parse = (\<lambda>s. None),
      generateContent =
        (\<lambda>n req. if n = 0 then Throws (Some ''Rpc failed due to xhr error'')
                  else Throws (Some ''quota exceeded''))\<rparr>"

definition failing_other :: platform where
  "failing_other =
     \<lparr>apiKey = Some ''key'', stringify = (\<lambda>v. ''[]''), parse = (\<lambda>s. None),
      generateContent = (\<lambda>n req. Throws (Some ''API key not valid''))\<rparr>"

text \<open>A result of the described shape, a platform whose model answers with it, and one
  whose model answers with an empty text.\<close>

definition goodResult :: json where
  "goodResult =
     JObj [(''summary'', JStr ''Sales grew''),
           (''keyInsights'', JArr [JStr ''Line A is late'']),
           (''charts'',
              JArr [JObj [(''id'', JStr ''c1''), (''title'', JStr ''Sales by month''),
                          (''type'', JStr ''line''), (''xAxisKey'', JStr ''Month''),
                          (''dataKey'', JStr ''Amount''),
                          (''description'', JStr ''Trend'')]])]"

definition answering :: platform where
  "answering =
     \<lparr>apiKey = Some ''key'', stringify = (\<lambda>v. ''[]''),
      parse = (\<lambda>s. if s = ''ok'' then Some goodResult else None),
      generateContent =
        (\<lambda>n req. if responseSchema req = analysisSchema then Responds (Response (Some ''ok''))
                  else Responds (Response None))\<rparr>"

definition silent :: platform where
  "silent =
     \<lparr>apiKey = Some ''key'', stringify = (\<lambda>v. ''[]''), parse = (\<lambda>s. None),
      generateContent = (\<lambda>n req. Responds (Response (Some [])))\<rparr>"

text \<open>A dataset of two rows.\<close>

definition rowsAB :: "ExcelDataRow list" where
  "rowsAB = [[(''Customer'', JStr ''ACME''), (''Amount'', JNum 120)],
             [(''Customer'', JStr ''Bolt''), (''Amount'', JNum 75)]]"

text \<open>A browser in which the user picks the folder \<open>Documents\<close>, and a platform whose
  model answers with an object that has a number for its summary and nothing else.\<close>

definition pickDocuments :: browser where
  "pickDocuments =
     \<lparr>showDirectoryPicker = Some (Picks ''Documents'' disk0), subfolder_allowed = True,
      idb_put = None\<rparr>"

definition lying :: platform where
  \<open>lying =
     \<lparr>apiKey = Some ''key'', stringify = (\<lambda>v. ''[]''),
      parse = (\<lambda>s. if s = ''{"summary":5}'' then Some (JObj [(''summary'', JNum 5)]) else None),
      generateContent = (\<lambda>n req. Responds (Response (Some ''{"summary":5}'')))\<rparr>\<close>

section \<open>Helper lemmas\<close>

lemma findIndex_total:
  "\<forall>x\<in>set xs. p x = Inr (q x) \<Longrightarrow>
   \<exists>k. findIndex p xs = Inr k \<and>
       (if 0 \<le> k then nat k < length xs \<and> q (xs ! nat k) \<and> (\<forall>j<nat k. \<not> q (xs ! j))
        else (\<forall>x\<in>set xs. \<not> q x))"
proof (induction xs)
  case Nil
  then show ?case by simp
next
  case (Cons x xs)
  then obtain k where k: "findIndex p xs = Inr k"
    and kp: "if 0 \<le> k then nat k < length xs \<and> q (xs ! nat k) \<and> (\<forall>j<nat k. \<not> q (xs ! j))
        else (\<forall>x\<in>set xs. \<not> q x)" by auto
  have px: "p x = Inr (q x)" using Cons.prems by simp
  show ?case
  proof (cases "q x")
    case True
    then show ?thesis using px by simp
  next
    case False
    show ?thesis
    proof (cases "0 \<le> k")
      case True
      have n: "nat (k + 1) = Suc (nat k)" using True by simp
      have "\<forall>j<Suc (nat k). \<not> q ((x # xs) ! j)"
        using kp True False by (auto simp: less_Suc_eq_0_disj)
      then show ?thesis using px False k kp True n by simp
    next
      case F2: False
      then show ?thesis using px False k kp by simp
    qed
  qed
qed

lemma load_save_same: "load k (save k v st) = v"
  by (simp add: load_def save_def)

lemma localStorage_getDir: "localStorage (snd (getDir n st)) = localStorage st"
  by (auto simp: getDir_def getDirectoryHandle_def split: option.splits entry.splits sum.splits)

lemma localStorage_writeBinaryFile:
  "localStorage (writeBinaryFile d f c st) = localStorage st"
  using localStorage_getDir [of d st]
  by (auto simp: writeBinaryFile_def split: option.splits sum.splits prod.splits)

lemma localStorage_syncToDisk: "localStorage (snd (syncToDisk now st)) = localStorage st"
  by (simp add: syncToDisk_def Let_def localStorage_writeBinaryFile)

lemma load_syncToDisk: "load k (snd (syncToDisk now st)) = load k st"
  by (simp add: load_def localStorage_syncToDisk)

lemma id_is_template: "id_is i (template_json t) = Inr (tmpl_id t = i)"
  by (simp add: id_is_def template_json_def)

lemma id_is_not_template: "id_is_not i (template_json t) = Inr (tmpl_id t \<noteq> i)"
  by (simp add: id_is_not_def template_json_def)

lemma id_is_group: "id_is i (group_json g) = Inr (group_id g = i)"
  by (simp add: id_is_def group_json_def)

lemma id_is_not_group: "id_is_not i (group_json g) = Inr (group_id g \<noteq> i)"
  by (simp add: id_is_not_def group_json_def)

lemma keys_distinct: "TEMPLATES \<noteq> GROUPS"
  by (simp add: TEMPLATES_def GROUPS_def)


lemma findIndex_templates:
  "\<exists>k. findIndex (id_is i) (map template_json ts) = Inr k \<and>
       (if 0 \<le> k then nat k < length ts \<and> tmpl_id (ts ! nat k) = i \<and>
                       (\<forall>j<nat k. tmpl_id (ts ! j) \<noteq> i)
        else i \<notin> tmpl_id ` set ts)"
proof -
  let ?q = "\<lambda>x. id_is i x = Inr True"
  have "\<forall>x\<in>set (map template_json ts). id_is i x = Inr (?q x)"
    by (auto simp: id_is_template)
  from findIndex_total [OF this]
  obtain k where k: "findIndex (id_is i) (map template_json ts) = Inr k"
    and kp: "if 0 \<le> k
             then nat k < length (map template_json ts) \<and> ?q (map template_json ts ! nat k) \<and>
                  (\<forall>j<nat k. \<not> ?q (map template_json ts ! j))
             else (\<forall>x\<in>set (map template_json ts). \<not> ?q x)"
    by blast
  show ?thesis
  proof (cases "0 \<le> k")
    case True
    then show ?thesis using k kp by (auto simp: id_is_template)
  next
    case False
    then show ?thesis using k kp by (auto simp: id_is_template)
  qed
qed

lemma findIndex_groups:
  "\<exists>k. findIndex (id_is i) (map group_json gs) = Inr k \<and>
       (if 0 \<le> k then nat k < length gs \<and> group_id (gs ! nat k) = i \<and>
                       (\<forall>j<nat k. group_id (gs ! j) \<noteq> i)
        else i \<notin> group_id ` set gs)"
proof -
  let ?q = "\<lambda>x. id_is i x = Inr True"
  have "\<forall>x\<in>set (map group_json gs). id_is i x = Inr (?q x)"
    by (auto simp: id_is_group)
  from findIndex_total [OF this]
  obtain k where k: "findIndex (id_is i) (map group_json gs) = Inr k"
    and kp: "if 0 \<le> k
             then nat k < length (map group_json gs) \<and> ?q (map group_json gs ! nat k) \<and>
                  (\<forall>j<nat k. \<not> ?q (map group_json gs ! j))
             else (\<forall>x\<in>set (map group_json gs). \<not> ?q x)"
    by blast
  show ?thesis
  proof (cases "0 \<le> k")
    case True
    then show ?thesis using k kp by (auto simp: id_is_group)
  next
    case False
    then show ?thesis using k kp by (auto simp: id_is_group)
  qed
qed

lemma saveTemplate_typed:
  assumes "getTemplates st = JArr (map template_json ts)"
  shows "\<exists>st' ts'. saveTemplate now t st = Inr st' \<and>
           getTemplates st' = JArr (map template_json ts') \<and>
           localStorage st' GROUPS = localStorage st GROUPS \<and>
           (if tmpl_id t \<in> tmpl_id ` set ts
            then (\<exists>k<length ts. tmpl_id (ts ! k) = tmpl_id t \<and>
                    (\<forall>j<k. tmpl_id (ts ! j) \<noteq> tmpl_id t) \<and> ts' = ts[k := t])
            else ts' = ts @ [t])"
proof -
  obtain k where k: "findIndex (id_is (tmpl_id t)) (map template_json ts) = Inr k"
    and kp: "if 0 \<le> k then nat k < length ts \<and> tmpl_id (ts ! nat k) = tmpl_id t \<and>
                       (\<forall>j<nat k. tmpl_id (ts ! j) \<noteq> tmpl_id t)
             else tmpl_id t \<notin> tmpl_id ` set ts"
    using findIndex_templates by blast
  define ts' where "ts' = (if 0 \<le> k then ts[nat k := t] else ts @ [t])"
  define st' where "st' = snd (syncToDisk now (save TEMPLATES (JArr (map template_json ts')) st))"
  have l: "load TEMPLATES st = JArr (map template_json ts)"
    using assms by (simp add: getTemplates_def)
  have m: "(if 0 \<le> k then (map template_json ts)[nat k := template_json t]
            else map template_json ts @ [template_json t]) = map template_json ts'"
    by (simp add: ts'_def map_update)
  have r: "saveTemplate now t st = Inr st'"
    unfolding saveTemplate_def st'_def by (simp add: l k m)
  have g: "getTemplates st' = JArr (map template_json ts')"
    by (simp add: getTemplates_def st'_def load_syncToDisk load_save_same)
  have f: "localStorage st' GROUPS = localStorage st GROUPS"
    using keys_distinct by (simp add: st'_def localStorage_syncToDisk save_def)
  have c: "if tmpl_id t \<in> tmpl_id ` set ts
            then (\<exists>k<length ts. tmpl_id (ts ! k) = tmpl_id t \<and>
                    (\<forall>j<k. tmpl_id (ts ! j) \<noteq> tmpl_id t) \<and> ts' = ts[k := t])
            else ts' = ts @ [t]"
  proof (cases "0 \<le> k")
    case True
    then have "ts ! nat k \<in> set ts" using kp by simp
    then have "tmpl_id (ts ! nat k) \<in> tmpl_id ` set ts" by (rule imageI)
    then have "tmpl_id t \<in> tmpl_id ` set ts" using True kp by simp
    then show ?thesis using True kp ts'_def by auto
  next
    case False
    then show ?thesis using kp ts'_def by auto
  qed
  show ?thesis using r g f c by blast
qed

lemma saveGroup_typed:
  assumes "getGroups st = JArr (map group_json gs)"
  shows "\<exists>st' gs'. saveGroup now g st = Inr st' \<and>
           getGroups st' = JArr (map group_json gs') \<and>
           localStorage st' TEMPLATES = localStorage st TEMPLATES \<and>
           (if group_id g \<in> group_id ` set gs
            then (\<exists>k<length gs. group_id (gs ! k) = group_id g \<and>
                    (\<forall>j<k. group_id (gs ! j) \<noteq> group_id g) \<and> gs' = gs[k := g])
            else gs' = gs @ [g])"
proof -
  obtain k where k: "findIndex (id_is (group_id g)) (map group_json gs) = Inr k"
    and kp: "if 0 \<le> k then nat k < length gs \<and> group_id (gs ! nat k) = group_id g \<and>
                       (\<forall>j<nat k. group_id (gs ! j) \<noteq> group_id g)
             else group_id g \<notin> group_id ` set gs"
    using findIndex_groups by blast
  define gs' where "gs' = (if 0 \<le> k then gs[nat k := g] else gs @ [g])"
  define st' where "st' = snd (syncToDisk now (save GROUPS (JArr (map group_json gs')) st))"
  have l: "load GROUPS st = JArr (map group_json gs)"
    using assms by (simp add: getGroups_def)
  have m: "(if 0 \<le> k then (map group_json gs)[nat k := group_json g]
            else map group_json gs @ [group_json g]) = map group_json gs'"
    by (simp add: gs'_def map_update)
  have r: "saveGroup now g st = Inr st'"
    unfolding saveGroup_def st'_def by (simp add: l k m)
  have gg: "getGroups st' = JArr (map group_json gs')"
    by (simp add: getGroups_def st'_def load_syncToDisk load_save_same)
  have f: "localStorage st' TEMPLATES = localStorage st TEMPLATES"
    using keys_distinct by (simp add: st'_def localStorage_syncToDisk save_def)
  have c: "if group_id g \<in> group_id ` set gs
            then (\<exists>k<length gs. group_id (gs ! k) = group_id g \<and>
                    (\<forall>j<k. group_id (gs ! j) \<noteq> group_id g) \<and> gs' = gs[k := g])
            else gs' = gs @ [g]"
  proof (cases "0 \<le> k")
    case True
    then have "gs ! nat k \<in> set gs" using kp by simp
    then have "group_id (gs ! nat k) \<in> group_id ` set gs" by (rule imageI)
    then have "group_id g \<in> group_id ` set gs" using True kp by simp
    then show ?thesis using True kp gs'_def by auto
  next
    case False
    then show ?thesis using kp gs'_def by auto
  qed
  show ?thesis using r gg f c by blast
qed

lemma filter_js_templates:
  "filter_js (id_is_not i) (map template_json ts) =
     Inr (map template_json (filter (\<lambda>t. tmpl_id t \<noteq> i) ts))"
  by (induction ts) (simp_all add: id_is_not_template)

lemma filter_js_groups:
  "filter_js (id_is_not i) (map group_json gs) =
     Inr (map group_json (filter (\<lambda>g. group_id g \<noteq> i) gs))"
  by (induction gs) (simp_all add: id_is_not_group)

lemma deleteTemplate_typed:
  assumes "getTemplates st = JArr (map template_json ts)"
  shows "\<exists>st'. deleteTemplate now i st = Inr st' \<and>
           getTemplates st' = JArr (map template_json (filter (\<lambda>t. tmpl_id t \<noteq> i) ts)) \<and>
           localStorage st' GROUPS = localStorage st GROUPS"
proof -
  have l: "load TEMPLATES st = JArr (map template_json ts)"
    using assms by (simp add: getTemplates_def)
  have f: "localStorage (save TEMPLATES v st) GROUPS = localStorage st GROUPS" for v
    using keys_distinct by (simp add: save_def)
  show ?thesis
    by (simp add: deleteTemplate_def l filter_js_templates getTemplates_def load_syncToDisk
        load_save_same localStorage_syncToDisk f)
qed

lemma deleteGroup_typed:
  assumes "getGroups st = JArr (map group_json gs)"
  shows "\<exists>st'. deleteGroup now i st = Inr st' \<and>
           getGroups st' = JArr (map group_json (filter (\<lambda>g. group_id g \<noteq> i) gs)) \<and>
           localStorage st' TEMPLATES = localStorage st TEMPLATES"
proof -
  have l: "load GROUPS st = JArr (map group_json gs)"
    using assms by (simp add: getGroups_def)
  have f: "localStorage (save GROUPS v st) TEMPLATES = localStorage st TEMPLATES" for v
    using keys_distinct by (simp add: save_def)
  show ?thesis
    by (simp add: deleteGroup_def l filter_js_groups getGroups_def load_syncToDisk
        load_save_same localStorage_syncToDisk f)
qed

lemma store0_templates: "getTemplates store0 = JArr (map template_json [tmplA, tmplB])"
  by (simp add: getTemplates_def load_def store0_def TEMPLATES_def GROUPS_def)

lemma store0_groups: "getGroups store0 = JArr (map group_json [groupA, groupB])"
  by (simp add: getGroups_def load_def store0_def TEMPLATES_def GROUPS_def)

section \<open>Deleting a record\<close>

text \<open>
  Claim C10. On a stored list of templates, \<open>deleteTemplate i\<close> returns normally and
  the stored list becomes the old one without the templates whose identifier is \<open>i\<close>:
  the others stay as they were, in their order. The item stored for the groups is not
  touched. \<open>deleteGroup\<close> does the same on the groups and does not touch the item
  stored for the templates.
\<close>

theorem delete_removes_exactly_the_id:
  "(getTemplates st = JArr (map template_json ts) \<longrightarrow>
      (\<exists>st'. deleteTemplate now i st = Inr st' \<and>
         getTemplates st' = JArr (map template_json (filter (\<lambda>t. tmpl_id t \<noteq> i) ts)) \<and>
         localStorage st' GROUPS = localStorage st GROUPS \<and> getGroups st' = getGroups st)) \<and>
   (getGroups st = JArr (map group_json gs) \<longrightarrow>
      (\<exists>st'. deleteGroup now i st = Inr st' \<and>
         getGroups st' = JArr (map group_json (filter (\<lambda>g. group_id g \<noteq> i) gs)) \<and>
         localStorage st' TEMPLATES = localStorage st TEMPLATES \<and>
         getTemplates st' = getTemplates st))"
proof (intro conjI impI)
  assume "getTemplates st = JArr (map template_json ts)"
  from deleteTemplate_typed [OF this, of now i]
  show "\<exists>st'. deleteTemplate now i st = Inr st' \<and>
         getTemplates st' = JArr (map template_json (filter (\<lambda>t. tmpl_id t \<noteq> i) ts)) \<and>
         localStorage st' GROUPS = localStorage st GROUPS \<and> getGroups st' = getGroups st"
    by (auto simp: getGroups_def load_def)
next
  assume "getGroups st = JArr (map group_json gs)"
  from deleteGroup_typed [OF this, of now i]
  show "\<exists>st'. deleteGroup now i st = Inr st' \<and>
         getGroups st' = JArr (map group_json (filter (\<lambda>g. group_id g \<noteq> i) gs)) \<and>
         localStorage st' TEMPLATES = localStorage st TEMPLATES \<and>
         getTemplates st' = getTemplates st"
    by (auto simp: getTemplates_def load_def)
qed

theorem delete_removes_exactly_the_id_witness:
  "getTemplates store0 = JArr (map template_json [tmplA, tmplB]) \<and>
   getGroups store0 = JArr (map group_json [groupA, groupB]) \<and>
   (\<exists>st'. deleteTemplate ''2024-01-01'' ''a'' store0 = Inr st' \<and>
      getTemplates st' = JArr [template_json tmplB] \<and> getGroups st' = getGroups store0) \<and>
   (\<exists>st'. deleteGroup ''2024-01-01'' ''a'' store0 = Inr st' \<and>
      getGroups st' = JArr [group_json groupB] \<and> getTemplates st' = getTemplates store0)"
  using delete_removes_exactly_the_id [of store0 "[tmplA, tmplB]" "''2024-01-01''" "''a''"
      "[groupA, groupB]"]
    store0_templates store0_groups
  by (simp add: tmplA_def tmplB_def groupA_def groupB_def) blast
section \<open>Saving a record\<close>

lemma map_id_update:
  assumes "k < length xs" and "f (xs ! k) = f x"
  shows "map f (xs[k := x]) = map f xs"
proof -
  have "map f (xs[k := x]) = (map f xs)[k := f x]" by (simp add: map_update)
  also have "\<dots> = (map f xs)[k := map f xs ! k]" using assms by simp
  also have "\<dots> = map f xs" by (rule list_update_id)
  finally show ?thesis .
qed

text \<open>
  Claim C3. On a stored list of templates, \<open>saveTemplate t\<close> returns normally and the
  list \<open>getTemplates\<close> returns afterwards contains \<open>t\<close>; deleting \<open>t\<close>'s identifier,
  from there or from any stored list of templates, returns normally and leaves no
  template with that identifier. The same holds for \<open>saveGroup\<close>, \<open>getGroups\<close> and
  \<open>deleteGroup\<close>.
\<close>

theorem crud_round_trip:
  "(getTemplates st = JArr (map template_json ts) \<longrightarrow>
      (\<exists>st1 ts1. saveTemplate now t st = Inr st1 \<and>
         getTemplates st1 = JArr (map template_json ts1) \<and> t \<in> set ts1 \<and>
         (\<exists>st2 ts2. deleteTemplate now' (tmpl_id t) st1 = Inr st2 \<and>
            getTemplates st2 = JArr (map template_json ts2) \<and>
            tmpl_id t \<notin> tmpl_id ` set ts2)) \<and>
      (\<exists>st2 ts2. deleteTemplate now (tmpl_id t) st = Inr st2 \<and>
         getTemplates st2 = JArr (map template_json ts2) \<and>
         tmpl_id t \<notin> tmpl_id ` set ts2)) \<and>
   (getGroups st = JArr (map group_json gs) \<longrightarrow>
      (\<exists>st1 gs1. saveGroup now g st = Inr st1 \<and>
         getGroups st1 = JArr (map group_json gs1) \<and> g \<in> set gs1 \<and>
         (\<exists>st2 gs2. deleteGroup now' (group_id g) st1 = Inr st2 \<and>
            getGroups st2 = JArr (map group_json gs2) \<and>
            group_id g \<notin> group_id ` set gs2)) \<and>
      (\<exists>st2 gs2. deleteGroup now (group_id g) st = Inr st2 \<and>
         getGroups st2 = JArr (map group_json gs2) \<and>
         group_id g \<notin> group_id ` set gs2))"
proof (intro conjI impI)
  assume a: "getTemplates st = JArr (map template_json ts)"
  obtain st1 ts1 where s: "saveTemplate now t st = Inr st1"
    and g1: "getTemplates st1 = JArr (map template_json ts1)"
    and c: "if tmpl_id t \<in> tmpl_id ` set ts
            then (\<exists>k<length ts. tmpl_id (ts ! k) = tmpl_id t \<and>
                    (\<forall>j<k. tmpl_id (ts ! j) \<noteq> tmpl_id t) \<and> ts1 = ts[k := t])
            else ts1 = ts @ [t]"
    using saveTemplate_typed [OF a, of now t] by blast
  have m: "t \<in> set ts1"
  proof (cases "tmpl_id t \<in> tmpl_id ` set ts")
    case True
    then obtain k where "k < length ts" and "ts1 = ts[k := t]" using c by auto
    then show ?thesis by (simp add: set_update_memI)
  next
    case False
    then show ?thesis using c by simp
  qed
  obtain st2 where d: "deleteTemplate now' (tmpl_id t) st1 = Inr st2"
    and g2: "getTemplates st2 =
             JArr (map template_json (filter (\<lambda>u. tmpl_id u \<noteq> tmpl_id t) ts1))"
    using deleteTemplate_typed [OF g1, of now' "tmpl_id t"] by blast
  have n: "tmpl_id t \<notin> tmpl_id ` set (filter (\<lambda>u. tmpl_id u \<noteq> tmpl_id t) xs)" for xs
    by auto
  show "\<exists>st1 ts1. saveTemplate now t st = Inr st1 \<and>
         getTemplates st1 = JArr (map template_json ts1) \<and> t \<in> set ts1 \<and>
         (\<exists>st2 ts2. deleteTemplate now' (tmpl_id t) st1 = Inr st2 \<and>
            getTemplates st2 = JArr (map template_json ts2) \<and>
            tmpl_id t \<notin> tmpl_id ` set ts2)"
    using s g1 m d g2 n by blast
  obtain st3 where d3: "deleteTemplate now (tmpl_id t) st = Inr st3"
    and g3: "getTemplates st3 =
             JArr (map template_json (filter (\<lambda>u. tmpl_id u \<noteq> tmpl_id t) ts))"
    using deleteTemplate_typed [OF a, of now "tmpl_id t"] by blast
  show "\<exists>st2 ts2. deleteTemplate now (tmpl_id t) st = Inr st2 \<and>
         getTemplates st2 = JArr (map template_json ts2) \<and>
         tmpl_id t \<notin> tmpl_id ` set ts2"
    using d3 g3 n by blast
next
  assume a: "getGroups st = JArr (map group_json gs)"
  obtain st1 gs1 where s: "saveGroup now g st = Inr st1"
    and g1: "getGroups st1 = JArr (map group_json gs1)"
    and c: "if group_id g \<in> group_id ` set gs
            then (\<exists>k<length gs. group_id (gs ! k) = group_id g \<and>
                    (\<forall>j<k. group_id (gs ! j) \<noteq> group_id g) \<and> gs1 = gs[k := g])
            else gs1 = gs @ [g]"
    using saveGroup_typed [OF a, of now g] by blast
  have m: "g \<in> set gs1"
  proof (cases "group_id g \<in> group_id ` set gs")
    case True
    then obtain k where "k < length gs" and "gs1 = gs[k := g]" using c by auto
    then show ?thesis by (simp add: set_update_memI)
  next
    case False
    then show ?thesis using c by simp
  qed
  obtain st2 where d: "deleteGroup now' (group_id g) st1 = Inr st2"
    and g2: "getGroups st2 =
             JArr (map group_json (filter (\<lambda>u. group_id u \<noteq> group_id g) gs1))"
    using deleteGroup_typed [OF g1, of now' "group_id g"] by blast
  have n: "group_id g \<notin> group_id ` set (filter (\<lambda>u. group_id u \<noteq> group_id g) xs)" for xs
    by auto
  show "\<exists>st1 gs1. saveGroup now g st = Inr st1 \<and>
         getGroups st1 = JArr (map group_json gs1) \<and> g \<in> set gs1 \<and>
         (\<exists>st2 gs2. deleteGroup now' (group_id g) st1 = Inr st2 \<and>
            getGroups st2 = JArr (map group_json gs2) \<and>
            group_id g \<notin> group_id ` set gs2)"
    using s g1 m d g2 n by blast
  obtain st3 where d3: "deleteGroup now (group_id g) st = Inr st3"
    and g3: "getGroups st3 =
             JArr (map group_json (filter (\<lambda>u. group_id u \<noteq> group_id g) gs))"
    using deleteGroup_typed [OF a, of now "group_id g"] by blast
  show "\<exists>st2 gs2. deleteGroup now (group_id g) st = Inr st2 \<and>
         getGroups st2 = JArr (map group_json gs2) \<and>
         group_id g \<notin> group_id ` set gs2"
    using d3 g3 n by blast
qed

theorem crud_round_trip_witness:
  "getTemplates store0 = JArr (map template_json [tmplA, tmplB]) \<and>
   getGroups store0 = JArr (map group_json [groupA, groupB]) \<and>
   (\<exists>st1 ts1. saveTemplate ''2024-01-01'' tmplA2 store0 = Inr st1 \<and>
      getTemplates st1 = JArr (map template_json ts1) \<and> tmplA2 \<in> set ts1) \<and>
   (\<exists>st1 gs1. saveGroup ''2024-01-01'' groupA2 store0 = Inr st1 \<and>
      getGroups st1 = JArr (map group_json gs1) \<and> groupA2 \<in> set gs1)"
  using crud_round_trip [of store0 "[tmplA, tmplB]" "''2024-01-01''" tmplA2 "''2024-01-02''"
      "[groupA, groupB]" groupA2]
    store0_templates store0_groups
  by simp blast

text \<open>
  Claim C4. When the identifiers of the stored templates are pairwise distinct and
  \<open>t\<close>'s identifier is among them, \<open>saveTemplate t\<close> puts \<open>t\<close> at the position of the
  template that had the identifier: no record is added, the list keeps its length,
  the identifiers stay as they were, position by position, and so stay pairwise
  distinct. \<open>saveGroup\<close> does the same on the groups.
\<close>

theorem save_existing_id_replaces_in_place:
  "(getTemplates st = JArr (map template_json ts) \<and> distinct (map tmpl_id ts) \<and>
    tmpl_id t \<in> tmpl_id ` set ts \<longrightarrow>
      (\<exists>st' k. saveTemplate now t st = Inr st' \<and> k < length ts \<and>
         tmpl_id (ts ! k) = tmpl_id t \<and>
         getTemplates st' = JArr (map template_json (ts[k := t])) \<and>
         length (ts[k := t]) = length ts \<and>
         map tmpl_id (ts[k := t]) = map tmpl_id ts \<and>
         distinct (map tmpl_id (ts[k := t])))) \<and>
   (getGroups st = JArr (map group_json gs) \<and> distinct (map group_id gs) \<and>
    group_id g \<in> group_id ` set gs \<longrightarrow>
      (\<exists>st' k. saveGroup now g st = Inr st' \<and> k < length gs \<and>
         group_id (gs ! k) = group_id g \<and>
         getGroups st' = JArr (map group_json (gs[k := g])) \<and>
         length (gs[k := g]) = length gs \<and>
         map group_id (gs[k := g]) = map group_id gs \<and>
         distinct (map group_id (gs[k := g]))))"
proof (intro conjI impI)
  assume a: "getTemplates st = JArr (map template_json ts) \<and> distinct (map tmpl_id ts) \<and>
    tmpl_id t \<in> tmpl_id ` set ts"
  then obtain st' ts' where s: "saveTemplate now t st = Inr st'"
    and g1: "getTemplates st' = JArr (map template_json ts')"
    and c: "\<exists>k<length ts. tmpl_id (ts ! k) = tmpl_id t \<and>
                    (\<forall>j<k. tmpl_id (ts ! j) \<noteq> tmpl_id t) \<and> ts' = ts[k := t]"
    using saveTemplate_typed [of st ts now t] by auto
  then obtain k where k: "k < length ts" "tmpl_id (ts ! k) = tmpl_id t" "ts' = ts[k := t]"
    by blast
  have e: "map tmpl_id (ts[k := t]) = map tmpl_id ts"
    using k by (simp add: map_id_update)
  show "\<exists>st' k. saveTemplate now t st = Inr st' \<and> k < length ts \<and>
         tmpl_id (ts ! k) = tmpl_id t \<and>
         getTemplates st' = JArr (map template_json (ts[k := t])) \<and>
         length (ts[k := t]) = length ts \<and>
         map tmpl_id (ts[k := t]) = map tmpl_id ts \<and>
         distinct (map tmpl_id (ts[k := t]))"
    using s g1 k e a by auto
next
  assume a: "getGroups st = JArr (map group_json gs) \<and> distinct (map group_id gs) \<and>
    group_id g \<in> group_id ` set gs"
  then obtain st' gs' where s: "saveGroup now g st = Inr st'"
    and g1: "getGroups st' = JArr (map group_json gs')"
    and c: "\<exists>k<length gs. group_id (gs ! k) = group_id g \<and>
                    (\<forall>j<k. group_id (gs ! j) \<noteq> group_id g) \<and> gs' = gs[k := g]"
    using saveGroup_typed [of st gs now g] by auto
  then obtain k where k: "k < length gs" "group_id (gs ! k) = group_id g" "gs' = gs[k := g]"
    by blast
  have e: "map group_id (gs[k := g]) = map group_id gs"
    using k by (simp add: map_id_update)
  show "\<exists>st' k. saveGroup now g st = Inr st' \<and> k < length gs \<and>
         group_id (gs ! k) = group_id g \<and>
         getGroups st' = JArr (map group_json (gs[k := g])) \<and>
         length (gs[k := g]) = length gs \<and>
         map group_id (gs[k := g]) = map group_id gs \<and>
         distinct (map group_id (gs[k := g]))"
    using s g1 k e a by auto
qed

theorem save_existing_id_replaces_in_place_witness:
  "(getTemplates store0 = JArr (map template_json [tmplA, tmplB]) \<and>
    distinct (map tmpl_id [tmplA, tmplB]) \<and> tmpl_id tmplA2 \<in> tmpl_id ` set [tmplA, tmplB]) \<and>
   (getGroups store0 = JArr (map group_json [groupA, groupB]) \<and>
    distinct (map group_id [groupA, groupB]) \<and> group_id groupA2 \<in> group_id ` set [groupA, groupB]) \<and>
   (\<exists>st'. saveTemplate ''2024-01-01'' tmplA2 store0 = Inr st' \<and>
      getTemplates st' = JArr [template_json tmplA2, template_json tmplB]) \<and>
   (\<exists>st'. saveGroup ''2024-01-01'' groupA2 store0 = Inr st' \<and>
      getGroups st' = JArr [group_json groupA2, group_json groupB])"
proof -
  have ids: "tmpl_id tmplA = ''a''" "tmpl_id tmplB = ''b''" "tmpl_id tmplA2 = ''a''"
    "group_id groupA = ''a''" "group_id groupB = ''b''" "group_id groupA2 = ''a''"
    by (simp_all add: tmplA_def tmplB_def tmplA2_def groupA_def groupB_def groupA2_def)
  have h1: "getTemplates store0 = JArr (map template_json [tmplA, tmplB]) \<and>
    distinct (map tmpl_id [tmplA, tmplB]) \<and> tmpl_id tmplA2 \<in> tmpl_id ` set [tmplA, tmplB]"
    using store0_templates by (simp add: ids)
  have h2: "getGroups store0 = JArr (map group_json [groupA, groupB]) \<and>
    distinct (map group_id [groupA, groupB]) \<and> group_id groupA2 \<in> group_id ` set [groupA, groupB]"
    using store0_groups by (simp add: ids)
  from save_existing_id_replaces_in_place
    [of store0 "[tmplA, tmplB]" tmplA2 "''2024-01-01''" "[groupA, groupB]" groupA2] h1 h2
  obtain st1 k1 st2 k2 where
    t: "saveTemplate ''2024-01-01'' tmplA2 store0 = Inr st1" "k1 < length [tmplA, tmplB]"
       "tmpl_id ([tmplA, tmplB] ! k1) = tmpl_id tmplA2"
       "getTemplates st1 = JArr (map template_json ([tmplA, tmplB][k1 := tmplA2]))"
    and g: "saveGroup ''2024-01-01'' groupA2 store0 = Inr st2" "k2 < length [groupA, groupB]"
       "group_id ([groupA, groupB] ! k2) = group_id groupA2"
       "getGroups st2 = JArr (map group_json ([groupA, groupB][k2 := groupA2]))"
    by blast
  have "k1 = 0" using t(2,3) by (cases k1) (auto simp: ids less_Suc_eq)
  moreover have "k2 = 0" using g(2,3) by (cases k2) (auto simp: ids less_Suc_eq)
  ultimately show ?thesis using h1 h2 t g by simp
qed

section \<open>Export and import\<close>

lemma load_save: "load k (save k' v st) = (if k = k' then v else load k st)"
  by (simp add: load_def save_def)

lemma rootHandle_save: "rootHandle (save k v st) = rootHandle st"
  by (simp add: save_def)

lemma granted_save: "granted (save k v st) = granted st"
  by (simp add: save_def)


lemma get_prop_truthy: "truthy data \<Longrightarrow> get_prop data k = Inr (field data k)"
  by (cases data) (simp_all add: field_def)

lemma importConfigData_truthy:
  assumes "truthy data"
  shows "\<exists>st'. importConfigData data st = Inr st' \<and>
           getGroups st' = import_field (field data ''groups'') (getGroups st) \<and>
           getTemplates st' = import_field (field data ''templates'') (getTemplates st) \<and>
           rootHandle st' = rootHandle st \<and> granted st' = granted st"
proof -
  have k: "GROUPS \<noteq> TEMPLATES" using keys_distinct by simp
  show ?thesis
    using assms k
    by (auto simp: importConfigData_def get_prop_truthy import_field_def getGroups_def
        getTemplates_def load_save rootHandle_save granted_save Let_def split: option.splits)
qed
text \<open>
  Claim C6. Importing the document that \<open>exportConfigData\<close> returns, into the store it
  was exported from, returns normally and \<open>getTemplates\<close> and \<open>getGroups\<close> return what
  they returned before; the directory handle is not touched.
\<close>

theorem export_import_identity:
  "\<exists>st'. importConfigData (exportConfigData now st) st = Inr st' \<and>
         getTemplates st' = getTemplates st \<and> getGroups st' = getGroups st \<and>
         rootHandle st' = rootHandle st"
proof -
  let ?doc = "exportConfigData now st"
  have t: "truthy ?doc" by (simp add: exportConfigData_def)
  have fg: "field ?doc ''groups'' = Some (getGroups st)"
    by (simp add: field_def exportConfigData_def getGroups_def)
  have ft: "field ?doc ''templates'' = Some (getTemplates st)"
    by (simp add: field_def exportConfigData_def getTemplates_def)
  have i: "import_field (Some v) v = v" for v by (simp add: import_field_def)
  show ?thesis
    using importConfigData_truthy [OF t, of st] by (auto simp: fg ft i)
qed

theorem export_import_identity_witness:
  "\<exists>st'. importConfigData (exportConfigData ''2024-01-01'' store0) store0 = Inr st' \<and>
         getTemplates st' = JArr [template_json tmplA, template_json tmplB] \<and>
         getGroups st' = JArr [group_json groupA, group_json groupB]"
  using export_import_identity [of "''2024-01-01''" store0] store0_templates store0_groups
  by auto




section \<open>Synchronising with the directory\<close>

lemma map_of_update_other: "n \<noteq> k \<Longrightarrow> map_of (AList.update k v al) n = map_of al n"
  by (simp add: update_conv')

lemma map_of_update_same: "map_of (AList.update k v al) k = Some v"
  by (simp add: update_conv')

lemma syncToDisk_root_handle:
  "exportConfigData now st =
     JObj [(''groups'', getGroups st), (''templates'', getTemplates st),
           (''exportedAt'', JStr now), (''version'', JStr ''3.0'')] \<and>
   CONFIG_FILENAME = ''EXCEL_AI.json'' \<and>
   (rootHandle st = Some root \<and> granted st \<and>
    (\<forall>es. map_of root ''EXCEL_AI.json'' \<noteq> Some (Folder es)) \<longrightarrow>
      (\<exists>root'. syncToDisk now st = (True, st\<lparr>rootHandle := Some root'\<rparr>) \<and>
         map_of root' ''EXCEL_AI.json'' = Some (File (JsonText (exportConfigData now st))) \<and>
         (\<forall>n. n \<noteq> ''EXCEL_AI.json'' \<longrightarrow> map_of root' n = map_of root n)))"
proof (intro conjI impI)
  show "exportConfigData now st =
     JObj [(''groups'', getGroups st), (''templates'', getTemplates st),
           (''exportedAt'', JStr now), (''version'', JStr ''3.0'')]"
    by (simp add: exportConfigData_def getGroups_def getTemplates_def)
  show "CONFIG_FILENAME = ''EXCEL_AI.json''" by (simp add: CONFIG_FILENAME_def)
next
  assume a: "rootHandle st = Some root \<and> granted st \<and>
    (\<forall>es. map_of root ''EXCEL_AI.json'' \<noteq> Some (Folder es))"
  let ?c = "File (JsonText (exportConfigData now st))"
  let ?root' = "AList.update ''EXCEL_AI.json'' ?c root"
  have w: "write_entry True ''EXCEL_AI.json'' (JsonText (exportConfigData now st)) root = Inr ?root'"
    using a by (auto simp: write_entry_def split: option.splits entry.splits)
  have s: "syncToDisk now st = (True, st\<lparr>rootHandle := Some ?root'\<rparr>)"
    using a w by (simp add: syncToDisk_def isHandleReady_def writeBinaryFile_def
        CONFIG_FILENAME_def Let_def)
  have o: "\<forall>n. n \<noteq> ''EXCEL_AI.json'' \<longrightarrow> map_of ?root' n = map_of root n"
    by (simp add: map_of_update_other)
  show "\<exists>root'. syncToDisk now st = (True, st\<lparr>rootHandle := Some root'\<rparr>) \<and>
         map_of root' ''EXCEL_AI.json'' = Some (File (JsonText (exportConfigData now st))) \<and>
         (\<forall>n. n \<noteq> ''EXCEL_AI.json'' \<longrightarrow> map_of root' n = map_of root n)"
    using s o map_of_update_same [of "''EXCEL_AI.json''" ?c root] by blast
qed

lemma resolve_handle_cases:
  "(\<forall>sub d'. name \<noteq> ''ERP_AI'' \<and> open_subfolder ok ''ERP_AI'' d = Some (sub, d') \<longrightarrow>
      resolve_handle ok name d =
        \<lparr>handle_name = ''ERP_AI'', handle_path = [''ERP_AI''], handle_entries = sub\<rparr>) \<and>
   (name = ''ERP_AI'' \<or> open_subfolder ok ''ERP_AI'' d = None \<longrightarrow>
      resolve_handle ok name d = \<lparr>handle_name = name, handle_path = [], handle_entries = d\<rparr>)"
  by (auto simp: resolve_handle_def)

lemma selectDirectory_picks:
  "showDirectoryPicker b = Some (Picks name d) \<Longrightarrow> idb_put b = None \<Longrightarrow>
   selectDirectory b st =
     (Inr (handle_name (resolve_handle (subfolder_allowed b) name d)),
      st\<lparr>rootHandle := Some (handle_entries (resolve_handle (subfolder_allowed b) name d)),
         granted := True\<rparr>)"
  by (simp add: selectDirectory_def Let_def)

lemma picked_folder_sub:
  "handle_path h = [''ERP_AI''] \<Longrightarrow>
   map_of (picked_folder h d root) ''ERP_AI'' = Some (Folder root) \<and>
   map_of (picked_folder h d root) ''EXCEL_AI.json'' = map_of d ''EXCEL_AI.json''"
  by (simp add: picked_folder_def map_of_update_same map_of_update_other)

text \<open>
  Claim C5, as stated, fails: the user picks the folder \<open>Documents\<close>, which holds one
  file. \<open>selectDirectory\<close> makes the new \<open>ERP_AI\<close> folder inside it the root handle,
  and \<open>syncToDisk\<close> writes \<open>EXCEL_AI.json\<close> there: the root of the folder the user
  chose has no file of that name, its \<open>ERP_AI\<close> entry holds it.
\<close>

theorem config_file_not_in_chosen_root_counterexample:
  "selectDirectory pickDocuments store0 =
     (Inr ''ERP_AI'', store0\<lparr>rootHandle := Some [], granted := True\<rparr>) \<and>
   resolve_handle True ''Documents'' disk0 =
     \<lparr>handle_name = ''ERP_AI'', handle_path = [''ERP_AI''], handle_entries = []\<rparr> \<and>
   syncToDisk ''2024-01-01'' (store0\<lparr>rootHandle := Some [], granted := True\<rparr>) =
     (True,
      store0\<lparr>rootHandle :=
               Some [(''EXCEL_AI.json'', File (JsonText (exportConfigData ''2024-01-01'' store0)))],
             granted := True\<rparr>) \<and>
   map_of (picked_folder (resolve_handle True ''Documents'' disk0) disk0
             [(''EXCEL_AI.json'', File (JsonText (exportConfigData ''2024-01-01'' store0)))])
     ''EXCEL_AI.json'' = None \<and>
   map_of (picked_folder (resolve_handle True ''Documents'' disk0) disk0
             [(''EXCEL_AI.json'', File (JsonText (exportConfigData ''2024-01-01'' store0)))])
     ''ERP_AI'' =
     Some (Folder [(''EXCEL_AI.json'',
                    File (JsonText (exportConfigData ''2024-01-01'' store0)))])"
proof -
  let ?doc = "File (JsonText (exportConfigData ''2024-01-01'' store0))"
  have r: "resolve_handle True ''Documents'' disk0 =
     \<lparr>handle_name = ''ERP_AI'', handle_path = [''ERP_AI''], handle_entries = []\<rparr>"
    by (simp add: resolve_handle_def open_subfolder_def disk0_def)
  have s: "selectDirectory pickDocuments store0 =
     (Inr ''ERP_AI'', store0\<lparr>rootHandle := Some [], granted := True\<rparr>)"
    by (simp add: selectDirectory_def pickDocuments_def r Let_def)
  have e: "exportConfigData ''2024-01-01'' (store0\<lparr>rootHandle := Some [], granted := True\<rparr>) =
           exportConfigData ''2024-01-01'' store0"
    by (simp add: exportConfigData_def load_def)
  have w: "syncToDisk ''2024-01-01'' (store0\<lparr>rootHandle := Some [], granted := True\<rparr>) =
     (True, store0\<lparr>rootHandle := Some [(''EXCEL_AI.json'', ?doc)], granted := True\<rparr>)"
    by (simp add: syncToDisk_def isHandleReady_def writeBinaryFile_def write_entry_def
        CONFIG_FILENAME_def e Let_def)
  have n: "map_of (picked_folder (resolve_handle True ''Documents'' disk0) disk0
             [(''EXCEL_AI.json'', ?doc)]) ''EXCEL_AI.json'' = None"
    unfolding r by (simp add: picked_folder_def disk0_def)
  have f: "map_of (picked_folder (resolve_handle True ''Documents'' disk0) disk0
             [(''EXCEL_AI.json'', ?doc)]) ''ERP_AI'' = Some (Folder [(''EXCEL_AI.json'', ?doc)])"
    unfolding r by (simp add: picked_folder_def disk0_def)
  show ?thesis using s r w n f by (intro conjI)
qed

text \<open>
  Claim C5, amended. The document \<open>exportConfigData\<close> builds is an object with exactly
  four fields: \<open>groups\<close>, the stored groups list, \<open>templates\<close>, the stored templates
  list, \<open>exportedAt\<close>, the time of the export, and \<open>version\<close>, the string 3.0. When
  the service has a root handle, the browser lets it be used and the name
  \<open>EXCEL_AI.json\<close> is not taken by a subdirectory, \<open>syncToDisk\<close> returns true and
  the file \<open>EXCEL_AI.json\<close> in the root of the root handle's directory holds this
  document; the other entries of that directory are as they were. The root handle is
  the one \<open>selectDirectory\<close> set when the user chose a folder: the \<open>ERP_AI\<close> folder
  inside the chosen folder (created when absent), so that the chosen folder's own
  \<open>EXCEL_AI.json\<close> entry is not touched; or the chosen folder itself, when it is named
  \<open>ERP_AI\<close> or the subfolder cannot be opened.
\<close>

theorem syncToDisk_writes_to_root_handle:
  "exportConfigData now st =
     JObj [(''groups'', getGroups st), (''templates'', getTemplates st),
           (''exportedAt'', JStr now), (''version'', JStr ''3.0'')] \<and>
   CONFIG_FILENAME = ''EXCEL_AI.json'' \<and>
   (rootHandle st = Some root \<and> granted st \<and>
    (\<forall>es. map_of root ''EXCEL_AI.json'' \<noteq> Some (Folder es)) \<longrightarrow>
      (\<exists>root'. syncToDisk now st = (True, st\<lparr>rootHandle := Some root'\<rparr>) \<and>
         map_of root' ''EXCEL_AI.json'' = Some (File (JsonText (exportConfigData now st))) \<and>
         (\<forall>n. n \<noteq> ''EXCEL_AI.json'' \<longrightarrow> map_of root' n = map_of root n))) \<and>
   (showDirectoryPicker b = Some (Picks name d) \<and> idb_put b = None \<longrightarrow>
      (\<exists>h. selectDirectory b st =
             (Inr (handle_name h),
              st\<lparr>rootHandle := Some (handle_entries h), granted := True\<rparr>) \<and>
           (\<forall>sub d'. name \<noteq> ''ERP_AI'' \<and>
                open_subfolder (subfolder_allowed b) ''ERP_AI'' d = Some (sub, d') \<longrightarrow>
              h = \<lparr>handle_name = ''ERP_AI'', handle_path = [''ERP_AI''],
                   handle_entries = sub\<rparr> \<and>
              (\<forall>r. map_of (picked_folder h d r) ''ERP_AI'' = Some (Folder r) \<and>
                   map_of (picked_folder h d r) ''EXCEL_AI.json'' = map_of d ''EXCEL_AI.json'')) \<and>
           (name = ''ERP_AI'' \<or> open_subfolder (subfolder_allowed b) ''ERP_AI'' d = None \<longrightarrow>
              h = \<lparr>handle_name = name, handle_path = [], handle_entries = d\<rparr> \<and>
              (\<forall>r. picked_folder h d r = r))))"
proof (intro conjI impI)
  show "exportConfigData now st =
     JObj [(''groups'', getGroups st), (''templates'', getTemplates st),
           (''exportedAt'', JStr now), (''version'', JStr ''3.0'')]"
    using syncToDisk_root_handle [of now st root] by blast
  show "CONFIG_FILENAME = ''EXCEL_AI.json''" by (simp add: CONFIG_FILENAME_def)
next
  assume "rootHandle st = Some root \<and> granted st \<and>
    (\<forall>es. map_of root ''EXCEL_AI.json'' \<noteq> Some (Folder es))"
  then show "\<exists>root'. syncToDisk now st = (True, st\<lparr>rootHandle := Some root'\<rparr>) \<and>
         map_of root' ''EXCEL_AI.json'' = Some (File (JsonText (exportConfigData now st))) \<and>
         (\<forall>n. n \<noteq> ''EXCEL_AI.json'' \<longrightarrow> map_of root' n = map_of root n)"
    using syncToDisk_root_handle [of now st root] by blast
next
  assume p: "showDirectoryPicker b = Some (Picks name d) \<and> idb_put b = None"
  let ?h = "resolve_handle (subfolder_allowed b) name d"
  from p have s: "selectDirectory b st =
     (Inr (handle_name ?h), st\<lparr>rootHandle := Some (handle_entries ?h), granted := True\<rparr>)"
    by (simp add: selectDirectory_picks)
  have a: "\<forall>sub d'. name \<noteq> ''ERP_AI'' \<and>
                open_subfolder (subfolder_allowed b) ''ERP_AI'' d = Some (sub, d') \<longrightarrow>
              ?h = \<lparr>handle_name = ''ERP_AI'', handle_path = [''ERP_AI''],
                   handle_entries = sub\<rparr> \<and>
              (\<forall>r. map_of (picked_folder ?h d r) ''ERP_AI'' = Some (Folder r) \<and>
                   map_of (picked_folder ?h d r) ''EXCEL_AI.json'' = map_of d ''EXCEL_AI.json'')"
  proof (intro allI impI)
    fix sub d'
    assume o: "name \<noteq> ''ERP_AI'' \<and>
                open_subfolder (subfolder_allowed b) ''ERP_AI'' d = Some (sub, d')"
    then have h: "?h = \<lparr>handle_name = ''ERP_AI'', handle_path = [''ERP_AI''],
                   handle_entries = sub\<rparr>"
      using resolve_handle_cases [of name "subfolder_allowed b" d] by blast
    then have "handle_path ?h = [''ERP_AI'']" by simp
    then have "\<forall>r. map_of (picked_folder ?h d r) ''ERP_AI'' = Some (Folder r) \<and>
                   map_of (picked_folder ?h d r) ''EXCEL_AI.json'' = map_of d ''EXCEL_AI.json''"
      using picked_folder_sub by blast
    then show "?h = \<lparr>handle_name = ''ERP_AI'', handle_path = [''ERP_AI''],
                   handle_entries = sub\<rparr> \<and>
              (\<forall>r. map_of (picked_folder ?h d r) ''ERP_AI'' = Some (Folder r) \<and>
                   map_of (picked_folder ?h d r) ''EXCEL_AI.json'' = map_of d ''EXCEL_AI.json'')"
      using h by blast
  qed
  have c: "name = ''ERP_AI'' \<or> open_subfolder (subfolder_allowed b) ''ERP_AI'' d = None \<longrightarrow>
              ?h = \<lparr>handle_name = name, handle_path = [], handle_entries = d\<rparr> \<and>
              (\<forall>r. picked_folder ?h d r = r)"
  proof
    assume "name = ''ERP_AI'' \<or> open_subfolder (subfolder_allowed b) ''ERP_AI'' d = None"
    then have h: "?h = \<lparr>handle_name = name, handle_path = [], handle_entries = d\<rparr>"
      using resolve_handle_cases [of name "subfolder_allowed b" d] by blast
    then have "handle_path ?h = []" by simp
    then have "\<forall>r. picked_folder ?h d r = r" by (simp add: picked_folder_def)
    then show "?h = \<lparr>handle_name = name, handle_path = [], handle_entries = d\<rparr> \<and>
              (\<forall>r. picked_folder ?h d r = r)"
      using h by blast
  qed
  show "\<exists>h. selectDirectory b st =
             (Inr (handle_name h),
              st\<lparr>rootHandle := Some (handle_entries h), granted := True\<rparr>) \<and>
           (\<forall>sub d'. name \<noteq> ''ERP_AI'' \<and>
                open_subfolder (subfolder_allowed b) ''ERP_AI'' d = Some (sub, d') \<longrightarrow>
              h = \<lparr>handle_name = ''ERP_AI'', handle_path = [''ERP_AI''],
                   handle_entries = sub\<rparr> \<and>
              (\<forall>r. map_of (picked_folder h d r) ''ERP_AI'' = Some (Folder r) \<and>
                   map_of (picked_folder h d r) ''EXCEL_AI.json'' = map_of d ''EXCEL_AI.json'')) \<and>
           (name = ''ERP_AI'' \<or> open_subfolder (subfolder_allowed b) ''ERP_AI'' d = None \<longrightarrow>
              h = \<lparr>handle_name = name, handle_path = [], handle_entries = d\<rparr> \<and>
              (\<forall>r. picked_folder h d r = r))"
    using s a c by (intro exI [of _ ?h] conjI)
qed

theorem syncToDisk_writes_to_root_handle_witness:
  "(rootHandle store1 = Some disk0 \<and> granted store1 \<and>
    (\<forall>es. map_of disk0 ''EXCEL_AI.json'' \<noteq> Some (Folder es))) \<and>
   (showDirectoryPicker pickDocuments = Some (Picks ''Documents'' disk0) \<and>
    idb_put pickDocuments = None) \<and>
   ''Documents'' \<noteq> ''ERP_AI'' \<and>
   open_subfolder (subfolder_allowed pickDocuments) ''ERP_AI'' disk0 =
     Some ([], disk0 @ [(''ERP_AI'', Folder [])]) \<and>
   (\<exists>root'. syncToDisk ''2024-01-01'' store1 = (True, store1\<lparr>rootHandle := Some root'\<rparr>) \<and>
      map_of root' ''EXCEL_AI.json'' =
        Some (File (JsonText (JObj [(''groups'', getGroups store1),
                                   (''templates'', getTemplates store1),
                                   (''exportedAt'', JStr ''2024-01-01''),
                                   (''version'', JStr ''3.0'')]))) \<and>
      map_of root' ''notes.txt'' = Some (File (RawText ''hello''))) \<and>
   selectDirectory pickDocuments store1 =
     (Inr ''ERP_AI'', store1\<lparr>rootHandle := Some [], granted := True\<rparr>)"
proof -
  have h: "rootHandle store1 = Some disk0 \<and> granted store1 \<and>
    (\<forall>es. map_of disk0 ''EXCEL_AI.json'' \<noteq> Some (Folder es))"
    by (simp add: store1_def disk0_def)
  have p: "showDirectoryPicker pickDocuments = Some (Picks ''Documents'' disk0) \<and>
    idb_put pickDocuments = None"
    by (simp add: pickDocuments_def)
  have q: "''Documents'' \<noteq> ''ERP_AI''" by simp
  have o: "open_subfolder (subfolder_allowed pickDocuments) ''ERP_AI'' disk0 =
     Some ([], disk0 @ [(''ERP_AI'', Folder [])])"
    by (simp add: open_subfolder_def pickDocuments_def disk0_def)
  have n: "map_of disk0 ''notes.txt'' = Some (File (RawText ''hello''))"
    by (simp add: disk0_def)
  note t = syncToDisk_writes_to_root_handle [where now = "''2024-01-01''" and st = store1
      and root = disk0 and b = pickDocuments and name = "''Documents''" and d = disk0]
  from t h
  obtain root' where e: "exportConfigData ''2024-01-01'' store1 =
       JObj [(''groups'', getGroups store1), (''templates'', getTemplates store1),
             (''exportedAt'', JStr ''2024-01-01''), (''version'', JStr ''3.0'')]"
    and r: "syncToDisk ''2024-01-01'' store1 = (True, store1\<lparr>rootHandle := Some root'\<rparr>)"
    and f: "map_of root' ''EXCEL_AI.json'' =
            Some (File (JsonText (exportConfigData ''2024-01-01'' store1)))"
    and x: "\<forall>n. n \<noteq> ''EXCEL_AI.json'' \<longrightarrow> map_of root' n = map_of disk0 n"
    by blast
  have "map_of root' ''notes.txt'' = map_of disk0 ''notes.txt''" using x by simp
  then have k: "map_of root' ''notes.txt'' = Some (File (RawText ''hello''))"
    using n by simp
  have f': "map_of root' ''EXCEL_AI.json'' =
        Some (File (JsonText (JObj [(''groups'', getGroups store1),
                                   (''templates'', getTemplates store1),
                                   (''exportedAt'', JStr ''2024-01-01''),
                                   (''version'', JStr ''3.0'')])))"
    using f e by simp
  from t p obtain hd where
    s: "selectDirectory pickDocuments store1 =
          (Inr (handle_name hd), store1\<lparr>rootHandle := Some (handle_entries hd), granted := True\<rparr>)"
    and c: "\<forall>sub d'. ''Documents'' \<noteq> ''ERP_AI'' \<and>
                open_subfolder (subfolder_allowed pickDocuments) ''ERP_AI'' disk0 = Some (sub, d') \<longrightarrow>
              hd = \<lparr>handle_name = ''ERP_AI'', handle_path = [''ERP_AI''],
                   handle_entries = sub\<rparr> \<and>
              (\<forall>r. map_of (picked_folder hd disk0 r) ''ERP_AI'' = Some (Folder r) \<and>
                   map_of (picked_folder hd disk0 r) ''EXCEL_AI.json'' =
                   map_of disk0 ''EXCEL_AI.json'')"
    by blast
  from c q o have "hd = \<lparr>handle_name = ''ERP_AI'', handle_path = [''ERP_AI''],
                   handle_entries = []\<rparr>"
    by blast
  then have s': "selectDirectory pickDocuments store1 =
     (Inr ''ERP_AI'', store1\<lparr>rootHandle := Some [], granted := True\<rparr>)"
    using s by simp
  have w: "\<exists>root'. syncToDisk ''2024-01-01'' store1 = (True, store1\<lparr>rootHandle := Some root'\<rparr>) \<and>
      map_of root' ''EXCEL_AI.json'' =
        Some (File (JsonText (JObj [(''groups'', getGroups store1),
                                   (''templates'', getTemplates store1),
                                   (''exportedAt'', JStr ''2024-01-01''),
                                   (''version'', JStr ''3.0'')]))) \<and>
      map_of root' ''notes.txt'' = Some (File (RawText ''hello''))"
    using r f' k by blast
  show ?thesis using h p q o w s' by blast
qed

section \<open>Without a directory handle\<close>

lemma load_cong: "localStorage st2 = localStorage st \<Longrightarrow> load k st2 = load k st"
  by (simp add: load_def)

lemma saveTemplate_error_storage:
  assumes "localStorage st2 = localStorage st" and "saveTemplate now t st = Inl e"
  shows "saveTemplate now t st2 = Inl e"
proof -
  have l: "load TEMPLATES st2 = load TEMPLATES st" using assms(1) by (rule load_cong)
  show ?thesis
    using assms(2) by (auto simp: saveTemplate_def l Let_def split: sum.splits)
qed

lemma saveGroup_error_storage:
  assumes "localStorage st2 = localStorage st" and "saveGroup now g st = Inl e"
  shows "saveGroup now g st2 = Inl e"
proof -
  have l: "load GROUPS st2 = load GROUPS st" using assms(1) by (rule load_cong)
  show ?thesis
    using assms(2) by (auto simp: saveGroup_def l Let_def split: sum.splits)
qed

lemma deleteTemplate_error_storage:
  assumes "localStorage st2 = localStorage st" and "deleteTemplate now i st = Inl e"
  shows "deleteTemplate now i st2 = Inl e"
proof -
  have l: "load TEMPLATES st2 = load TEMPLATES st" using assms(1) by (rule load_cong)
  show ?thesis
    using assms(2) by (auto simp: deleteTemplate_def l Let_def split: sum.splits)
qed

lemma deleteGroup_error_storage:
  assumes "localStorage st2 = localStorage st" and "deleteGroup now i st = Inl e"
  shows "deleteGroup now i st2 = Inl e"
proof -
  have l: "load GROUPS st2 = load GROUPS st" using assms(1) by (rule load_cong)
  show ?thesis
    using assms(2) by (auto simp: deleteGroup_def l Let_def split: sum.splits)
qed

lemma importConfigData_error_storage:
  "importConfigData data st = Inl e \<Longrightarrow> importConfigData data st2 = Inl e"
  by (auto simp: importConfigData_def Let_def split: sum.splits if_splits)

lemma getDir_no_handle: "rootHandle st = None \<Longrightarrow> getDir name st = (None, st)"
  by (simp add: getDir_def)

text \<open>
  Claim C9. When no directory handle is set, \<open>loadAutoConfig\<close> and \<open>syncToDisk\<close> return
  false and leave the whole state (stored lists and directory) as it is, \<open>readAllFiles\<close>
  returns the empty list and \<open>writeBinaryFile\<close> returns without a change, for every
  directory name. No operation of the configuration service fails because the handle is
  absent: where \<open>saveTemplate\<close>, \<open>deleteTemplate\<close>, \<open>saveGroup\<close>, \<open>deleteGroup\<close> or
  \<open>importConfigData\<close> throws without a handle, it throws the same error with any
  handle \<open>h\<close> set.
\<close>

theorem absent_handle_is_harmless:
  "\<not> isHandleReady st \<longrightarrow>
     loadAutoConfig st = (False, st) \<and> syncToDisk now st = (False, st) \<and>
     readAllFiles dirName st = ([], st) \<and> writeBinaryFile dirName fileName c st = st \<and>
     (saveTemplate now t st = Inl e \<longrightarrow>
        saveTemplate now t (st\<lparr>rootHandle := Some h, granted := p\<rparr>) = Inl e) \<and>
     (deleteTemplate now i st = Inl e \<longrightarrow>
        deleteTemplate now i (st\<lparr>rootHandle := Some h, granted := p\<rparr>) = Inl e) \<and>
     (saveGroup now g st = Inl e \<longrightarrow>
        saveGroup now g (st\<lparr>rootHandle := Some h, granted := p\<rparr>) = Inl e) \<and>
     (deleteGroup now i st = Inl e \<longrightarrow>
        deleteGroup now i (st\<lparr>rootHandle := Some h, granted := p\<rparr>) = Inl e) \<and>
     (importConfigData data st = Inl e \<longrightarrow>
        importConfigData data (st\<lparr>rootHandle := Some h, granted := p\<rparr>) = Inl e)"
proof (intro impI)
  assume "\<not> isHandleReady st"
  then have n: "rootHandle st = None" by (simp add: isHandleReady_def)
  have ls: "localStorage (st\<lparr>rootHandle := Some h, granted := p\<rparr>) = localStorage st"
    by simp
  have a: "loadAutoConfig st = (False, st)" using n
    by (simp add: loadAutoConfig_def isHandleReady_def)
  have b: "syncToDisk now st = (False, st)" using n
    by (simp add: syncToDisk_def isHandleReady_def)
  have c: "readAllFiles dirName st = ([], st)" using n
    by (simp add: readAllFiles_def getDir_no_handle)
  have d: "writeBinaryFile dirName fileName c st = st" using n
    by (simp add: writeBinaryFile_def getDir_no_handle)
  show "loadAutoConfig st = (False, st) \<and> syncToDisk now st = (False, st) \<and>
     readAllFiles dirName st = ([], st) \<and> writeBinaryFile dirName fileName c st = st \<and>
     (saveTemplate now t st = Inl e \<longrightarrow>
        saveTemplate now t (st\<lparr>rootHandle := Some h, granted := p\<rparr>) = Inl e) \<and>
     (deleteTemplate now i st = Inl e \<longrightarrow>
        deleteTemplate now i (st\<lparr>rootHandle := Some h, granted := p\<rparr>) = Inl e) \<and>
     (saveGroup now g st = Inl e \<longrightarrow>
        saveGroup now g (st\<lparr>rootHandle := Some h, granted := p\<rparr>) = Inl e) \<and>
     (deleteGroup now i st = Inl e \<longrightarrow>
        deleteGroup now i (st\<lparr>rootHandle := Some h, granted := p\<rparr>) = Inl e) \<and>
     (importConfigData data st = Inl e \<longrightarrow>
        importConfigData data (st\<lparr>rootHandle := Some h, granted := p\<rparr>) = Inl e)"
    using a b c d saveTemplate_error_storage [OF ls] deleteTemplate_error_storage [OF ls]
      saveGroup_error_storage [OF ls] deleteGroup_error_storage [OF ls]
      importConfigData_error_storage
    by blast
qed

theorem absent_handle_is_harmless_witness:
  "\<not> isHandleReady store0 \<and>
   loadAutoConfig store0 = (False, store0) \<and> syncToDisk ''2024-01-01'' store0 = (False, store0) \<and>
   readAllFiles ''excel_history'' store0 = ([], store0) \<and>
   writeBinaryFile ''excel_history'' ''a.xlsx'' (RawText ''PK'') store0 = store0 \<and>
   importConfigData JNull store0 = Inl (Error ''Invalid config file'') \<and>
   importConfigData JNull (store0\<lparr>rootHandle := Some disk0, granted := True\<rparr>) =
     Inl (Error ''Invalid config file'')"
proof -
  have h: "\<not> isHandleReady store0" by (simp add: isHandleReady_def store0_def)
  have i: "importConfigData JNull store0 = Inl (Error ''Invalid config file'')"
    by (simp add: importConfigData_def)
  from absent_handle_is_harmless [where st = store0 and now = "''2024-01-01''"
      and dirName = "''excel_history''" and fileName = "''a.xlsx''" and c = "RawText ''PK''"
      and e = "Error ''Invalid config file''" and h = disk0 and p = True and data = JNull] h i
  show ?thesis by blast
qed

section \<open>Retrying the request\<close>

lemma retry_condition_matches: "retry_condition msg = message_matches msg"
proof (cases msg)
  case None
  then show ?thesis by (simp add: retry_condition_def message_matches_def)
next
  case (Some m)
  show ?thesis
  proof (cases "m = []")
    case True
    then show ?thesis using Some
      by (simp add: retry_condition_def message_matches_def network_substrings_def)
  next
    case False
    then show ?thesis using Some
      by (simp add: retry_condition_def message_matches_def network_substrings_def
          includes_js_def)
  qed
qed

lemma analyze_first_throws:
  assumes "createAIClient (apiKey env) = Inr k"
    and "generateContent env 0
           (build_request (stringify env) data language userPrompt img history templates) =
         Throws msg"
  shows "analyzeDataWithGemini env data language userPrompt img history templates =
     (let req = build_request (stringify env) data language userPrompt img history templates
      in if retry_condition msg
         then (case generateContent env 1 req of
                 Responds r \<Rightarrow> ([Request req, Delay 1000, Request req], result_of (parse env) r)
               | Throws msg2 \<Rightarrow> ([Request req, Delay 1000, Request req], Inl (Rejected msg2)))
         else ([Request req], Inl (Rejected msg)))"
  using assms by (simp add: analyzeDataWithGemini_def Let_def split: outcome.splits)

lemma analyze_first_responds:
  assumes "createAIClient (apiKey env) = Inr k"
    and "generateContent env 0
           (build_request (stringify env) data language userPrompt img history templates) =
         Responds r"
  shows "analyzeDataWithGemini env data language userPrompt img history templates =
     ([Request (build_request (stringify env) data language userPrompt img history templates)],
      result_of (parse env) r)"
  using assms by (simp add: analyzeDataWithGemini_def Let_def)

text \<open>
  Claim C1. The API key is configured and the first request throws an error with
  message \<open>msg\<close>. If the message contains one of 500, xhr, fetch, Rpc, the call sends
  the request, waits 1000 ms and sends the same request once more, and nothing else;
  a second error goes to the caller, a second response is treated as a first one would
  be. If the message contains none of them (or there is no message), the call sends
  the one request and the caller gets that error.
\<close>

theorem retry_once_on_network_error:
  "createAIClient (apiKey env) = Inr k \<and>
   req = build_request (stringify env) data language userPrompt img history templates \<and>
   generateContent env 0 req = Throws msg \<longrightarrow>
     (message_matches msg \<longrightarrow>
        fst (analyzeDataWithGemini env data language userPrompt img history templates) =
          [Request req, Delay 1000, Request req] \<and>
        (\<forall>msg2. generateContent env 1 req = Throws msg2 \<longrightarrow>
           snd (analyzeDataWithGemini env data language userPrompt img history templates) =
             Inl (Rejected msg2)) \<and>
        (\<forall>r. generateContent env 1 req = Responds r \<longrightarrow>
           snd (analyzeDataWithGemini env data language userPrompt img history templates) =
             result_of (parse env) r)) \<and>
     (\<not> message_matches msg \<longrightarrow>
        analyzeDataWithGemini env data language userPrompt img history templates =
          ([Request req], Inl (Rejected msg)))"
proof (intro impI)
  assume a: "createAIClient (apiKey env) = Inr k \<and>
   req = build_request (stringify env) data language userPrompt img history templates \<and>
   generateContent env 0 req = Throws msg"
  let ?r = "analyzeDataWithGemini env data language userPrompt img history templates"
  have u: "?r = (if message_matches msg
                 then (case generateContent env 1 req of
                         Responds r \<Rightarrow> ([Request req, Delay 1000, Request req], result_of (parse env) r)
                       | Throws msg2 \<Rightarrow> ([Request req, Delay 1000, Request req], Inl (Rejected msg2)))
                 else ([Request req], Inl (Rejected msg)))"
  proof -
    from a have k: "createAIClient (apiKey env) = Inr k" by blast
    from a have rq': "req = build_request (stringify env) data language userPrompt img history templates"
      by blast
    from a have g': "generateContent env 0 req = Throws msg" by blast
    have rq: "build_request (stringify env) data language userPrompt img history templates = req"
      using rq' by simp
    have g: "generateContent env 0
           (build_request (stringify env) data language userPrompt img history templates) =
         Throws msg" using g' rq' by simp
    show ?thesis
      using analyze_first_throws [OF k g]
      by (simp only: rq Let_def retry_condition_matches)
  qed
  have p: "message_matches msg \<longrightarrow>
        fst ?r = [Request req, Delay 1000, Request req] \<and>
        (\<forall>msg2. generateContent env 1 req = Throws msg2 \<longrightarrow> snd ?r = Inl (Rejected msg2)) \<and>
        (\<forall>r. generateContent env 1 req = Responds r \<longrightarrow> snd ?r = result_of (parse env) r)"
    unfolding u by (cases "generateContent env 1 req") simp_all
  have q: "\<not> message_matches msg \<longrightarrow> ?r = ([Request req], Inl (Rejected msg))"
    unfolding u by simp
  show "(message_matches msg \<longrightarrow>
        fst ?r = [Request req, Delay 1000, Request req] \<and>
        (\<forall>msg2. generateContent env 1 req = Throws msg2 \<longrightarrow> snd ?r = Inl (Rejected msg2)) \<and>
        (\<forall>r. generateContent env 1 req = Responds r \<longrightarrow> snd ?r = result_of (parse env) r)) \<and>
     (\<not> message_matches msg \<longrightarrow> ?r = ([Request req], Inl (Rejected msg)))"
    using p q by (rule conjI)
qed

theorem retry_once_on_network_error_witness:
  "message_matches (Some ''Rpc failed due to xhr error'') \<and>
   \<not> message_matches (Some ''API key not valid'') \<and>
   analyzeDataWithGemini failing_twice [] en_US None None None None =
     ([Request (build_request (\<lambda>v. ''[]'') [] en_US None None None None), Delay 1000,
       Request (build_request (\<lambda>v. ''[]'') [] en_US None None None None)],
      Inl (Rejected (Some ''quota exceeded''))) \<and>
   analyzeDataWithGemini failing_other [] en_US None None None None =
     ([Request (build_request (\<lambda>v. ''[]'') [] en_US None None None None)],
      Inl (Rejected (Some ''API key not valid'')))"
proof -
  let ?req = "build_request (\<lambda>v. ''[]'') [] en_US None None None None"
  have m1: "message_matches (Some ''Rpc failed due to xhr error'')"
    by (simp add: message_matches_def network_substrings_def sublist_code prefix_code)
  have m2: "\<not> message_matches (Some ''API key not valid'')"
    by (simp add: message_matches_def network_substrings_def sublist_code prefix_code)
  have h1: "createAIClient (apiKey failing_twice) = Inr ''key'' \<and>
     ?req = build_request (stringify failing_twice) [] en_US None None None None \<and>
     generateContent failing_twice 0 ?req = Throws (Some ''Rpc failed due to xhr error'')"
    by (simp add: failing_twice_def createAIClient_def)
  have h2: "createAIClient (apiKey failing_other) = Inr ''key'' \<and>
     ?req = build_request (stringify failing_other) [] en_US None None None None \<and>
     generateContent failing_other 0 ?req = Throws (Some ''API key not valid'')"
    by (simp add: failing_other_def createAIClient_def)
  have s: "generateContent failing_twice 1 ?req = Throws (Some ''quota exceeded'')"
    by (simp add: failing_twice_def)
  from retry_once_on_network_error [where env = failing_twice and req = ?req
      and msg = "Some ''Rpc failed due to xhr error''" and k = "''key''" and data = "[]"
      and language = en_US and userPrompt = None and img = None and history = None
      and templates = None] h1 m1 s
  have a: "analyzeDataWithGemini failing_twice [] en_US None None None None =
     ([Request ?req, Delay 1000, Request ?req], Inl (Rejected (Some ''quota exceeded'')))"
    by (metis prod.collapse)
  from retry_once_on_network_error [where env = failing_other and req = ?req
      and msg = "Some ''API key not valid''" and k = "''key''" and data = "[]"
      and language = en_US and userPrompt = None and img = None and history = None
      and templates = None] h2 m2
  have b: "analyzeDataWithGemini failing_other [] en_US None None None None =
     ([Request ?req], Inl (Rejected (Some ''API key not valid'')))"
    by blast
  show ?thesis using m1 m2 a b by blast
qed

section \<open>The result of the analysis\<close>

lemma conforms_string_field:
  "map_of kvs k = Some x \<Longrightarrow> conforms (STRING d None) x \<Longrightarrow> is_string_field (JObj kvs) k"
  by (cases x) (simp_all add: is_string_field_def field_def)

lemma conforms_chart:
  assumes "conforms chartSchema c"
  shows "is_chart c"
proof (cases c)
  case (JObj kvs)
  from assms JObj obtain a b t x y z where
    f: "map_of kvs ''id'' = Some a" "map_of kvs ''title'' = Some b" "map_of kvs ''type'' = Some t"
       "map_of kvs ''xAxisKey'' = Some x" "map_of kvs ''dataKey'' = Some y"
       "map_of kvs ''description'' = Some z"
    by (auto simp: chartSchema_def)
  from assms JObj f have
    c: "conforms (STRING None None) a" "conforms (STRING None None) b"
       "conforms (STRING None (Some [''bar'', ''line'', ''area'', ''pie'', ''scatter'', ''radar''])) t"
       "conforms (STRING (Some ''Exact column name to use for the X-axis (category).'') None) x"
       "conforms (STRING (Some ''Exact column name to use for the Y-axis (numerical value).'') None) y"
       "conforms (STRING (Some ''Why this chart is relevant.'') None) z"
    by (simp_all add: chartSchema_def)
  have t: "case field c ''type'' of Some (JStr s) \<Rightarrow> s \<in> set chart_types | _ \<Rightarrow> False"
    using c(3) f(3) JObj by (cases t) (simp_all add: field_def chart_types_def)
  show ?thesis
    unfolding is_chart_def
    using t conforms_string_field [OF f(1) c(1)] conforms_string_field [OF f(2) c(2)]
      conforms_string_field [OF f(4) c(4)] conforms_string_field [OF f(5) c(5)]
      conforms_string_field [OF f(6) c(6)] JObj
    by simp
qed (use assms in \<open>simp_all add: chartSchema_def\<close>)

lemma conforms_string: "conforms (STRING d None) x \<Longrightarrow> is_string x"
  by (cases x) simp_all

lemma conforms_analysisSchema:
  assumes "conforms analysisSchema v"
  shows "is_analysis_result v"
proof (cases v)
  case (JObj kvs)
  from assms JObj obtain s k c where
    f: "map_of kvs ''summary'' = Some s" "map_of kvs ''keyInsights'' = Some k"
       "map_of kvs ''charts'' = Some c"
    by (auto simp: analysisSchema_def)
  from assms JObj f have s: "conforms (STRING (Some ''A professional executive summary of the dataset suitable for ERP reporting. If answering a user question, address it here.'') None) s"
    by (simp add: analysisSchema_def)
  from assms JObj f obtain ks where k: "k = JArr ks" "list_all (conforms (STRING None None)) ks"
    by (cases k) (simp_all add: analysisSchema_def)
  from assms JObj f obtain cs where c: "c = JArr cs" "list_all (conforms chartSchema) cs"
    by (cases c) (simp_all add: analysisSchema_def)
  have ci: "list_all is_chart cs"
    using c(2) by (auto simp: list_all_iff intro: conforms_chart)
  have ki: "list_all is_string ks"
    using k(2) by (auto simp: list_all_iff intro: conforms_string)
  show ?thesis
    unfolding is_analysis_result_def
    using conforms_string_field [OF f(1) s] f k(1) c(1) ci ki JObj
    by (simp add: field_def)
qed (use assms in \<open>simp_all add: analysisSchema_def\<close>)

lemma result_of_no_text:
  "no_text r \<Longrightarrow> result_of prs r = Inl (Error ''No response generated from AI.'')"
  by (auto simp: no_text_def result_of_def)

lemma result_of_Inr:
  "result_of prs r = Inr v \<Longrightarrow> \<exists>t. r = Response (Some t) \<and> t \<noteq> [] \<and> prs t = Some v"
  by (cases r) (auto simp: result_of_def split: option.splits if_splits)

lemma analyze_Inr:
  assumes "analyzeDataWithGemini env data language userPrompt img history templates = (tr, Inr v)"
  shows "\<exists>n t. n \<le> 1 \<and>
               generateContent env n
                 (build_request (stringify env) data language userPrompt img history templates) =
               Responds (Response (Some t)) \<and> t \<noteq> [] \<and> parse env t = Some v"
proof -
  let ?req = "build_request (stringify env) data language userPrompt img history templates"
  obtain k where k: "createAIClient (apiKey env) = Inr k"
    using assms by (cases "createAIClient (apiKey env)") (simp_all add: analyzeDataWithGemini_def)
  show ?thesis
  proof (cases "generateContent env 0 ?req")
    case (Responds r)
    then have "result_of (parse env) r = Inr v"
      using assms analyze_first_responds [OF k Responds] by simp
    from result_of_Inr [OF this] Responds show ?thesis
      by (intro exI [of _ 0]) auto
  next
    case (Throws msg)
    note u = analyze_first_throws [OF k Throws]
    show ?thesis
    proof (cases "generateContent env 1 ?req")
      case R: (Responds r)
      then have "result_of (parse env) r = Inr v"
        using assms u by (simp add: Let_def split: if_splits)
      from result_of_Inr [OF this] R show ?thesis
        by (intro exI [of _ 1]) auto
    next
      case T: (Throws msg2)
      then show ?thesis using assms u by (simp add: Let_def split: if_splits)
    qed
  qed
qed
lemma responseSchema_build_request:
  "responseSchema (build_request str data language userPrompt img history templates) =
     analysisSchema"
  by (simp add: build_request_def Let_def)

text \<open>
  Claim C7, as stated, fails: the call returns whatever the response text parses to.
  When the model answers with an object whose only field is a summary that is the
  number 5, the call succeeds with that object, which has no summary string, no
  insights and no charts.
\<close>

theorem unchecked_result_counterexample:
  "analyzeDataWithGemini lying [] en_US None None None None =
     ([Request (build_request (stringify lying) [] en_US None None None None)],
      Inr (JObj [(''summary'', JNum 5)])) \<and>
   \<not> is_analysis_result (JObj [(''summary'', JNum 5)])"
proof -
  have k: "createAIClient (apiKey lying) = Inr ''key''"
    by (simp add: lying_def createAIClient_def)
  have g: "generateContent lying 0
             (build_request (stringify lying) [] en_US None None None None) =
           Responds (Response (Some ''{\"summary\":5}''))"
    by (simp add: lying_def)
  have a: "analyzeDataWithGemini lying [] en_US None None None None =
     ([Request (build_request (stringify lying) [] en_US None None None None)],
      Inr (JObj [(''summary'', JNum 5)]))"
    using analyze_first_responds [OF k g] by (simp add: lying_def result_of_def)
  have n: "\<not> is_analysis_result (JObj [(''summary'', JNum 5)])"
    by (simp add: is_analysis_result_def is_string_field_def field_def)
  show ?thesis using a n by (rule conjI)
qed

text \<open>
  Claim C7, amended. The call does not check the text it parses: a value it returns is
  the parsed, non-empty text of the response to its first or second request, and that
  request asks for JSON of the schema \<open>analysisSchema\<close>. Provided the hosted model honours the
  schema of the request, every value the call returns is a result as described: a
  summary string, a list of insight strings and a list of chart descriptors with id,
  title, one of the six chart types, x-axis key, data key and description. When the
  response the call ends with (the first one, or the second one after a retried error)
  has no text, the caller gets the error "No response generated from AI." and no
  value.
\<close>

theorem successful_result_has_schema_shape:
  "(service_honours_schema env \<longrightarrow>
      (\<forall>tr v. analyzeDataWithGemini env data language userPrompt img history templates =
                (tr, Inr v) \<longrightarrow> is_analysis_result v)) \<and>
   (\<forall>tr v. analyzeDataWithGemini env data language userPrompt img history templates =
             (tr, Inr v) \<longrightarrow>
      (\<exists>n t rq. n \<le> 1 \<and>
         rq = build_request (stringify env) data language userPrompt img history templates \<and>
         responseSchema rq = analysisSchema \<and> responseMimeType rq = ''application/json'' \<and>
         generateContent env n rq = Responds (Response (Some t)) \<and> t \<noteq> [] \<and>
         parse env t = Some v)) \<and>
   (createAIClient (apiKey env) = Inr k \<and>
    req = build_request (stringify env) data language userPrompt img history templates \<and>
    no_text r \<and>
    (generateContent env 0 req = Responds r \<or>
     (\<exists>msg. generateContent env 0 req = Throws msg \<and> retry_condition msg \<and>
            generateContent env 1 req = Responds r)) \<longrightarrow>
      snd (analyzeDataWithGemini env data language userPrompt img history templates) =
        Inl (Error ''No response generated from AI.''))"
proof (intro conjI impI allI)
  fix tr v
  assume h: "service_honours_schema env"
    and a: "analyzeDataWithGemini env data language userPrompt img history templates =
            (tr, Inr v)"
  let ?req = "build_request (stringify env) data language userPrompt img history templates"
  from analyze_Inr [OF a] obtain n t where
    g: "generateContent env n ?req = Responds (Response (Some t))" and t: "t \<noteq> []"
    and p: "parse env t = Some v"
    by blast
  from h g t obtain v' where "parse env t = Some v'" and "conforms (responseSchema ?req) v'"
    unfolding service_honours_schema_def by blast
  then have "conforms analysisSchema v"
    using p by (simp add: responseSchema_build_request)
  then show "is_analysis_result v" by (rule conforms_analysisSchema)
next
  fix tr v
  assume a: "analyzeDataWithGemini env data language userPrompt img history templates =
            (tr, Inr v)"
  let ?req = "build_request (stringify env) data language userPrompt img history templates"
  from analyze_Inr [OF a] obtain n t where
    "n \<le> 1" "generateContent env n ?req = Responds (Response (Some t))" "t \<noteq> []"
    "parse env t = Some v"
    by blast
  moreover have "responseSchema ?req = analysisSchema"
    by (rule responseSchema_build_request)
  moreover have "responseMimeType ?req = ''application/json''"
    by (simp add: build_request_def Let_def)
  ultimately show "\<exists>n t rq. n \<le> 1 \<and>
         rq = build_request (stringify env) data language userPrompt img history templates \<and>
         responseSchema rq = analysisSchema \<and> responseMimeType rq = ''application/json'' \<and>
         generateContent env n rq = Responds (Response (Some t)) \<and> t \<noteq> [] \<and>
         parse env t = Some v"
    by blast
next
  assume b: "createAIClient (apiKey env) = Inr k \<and>
    req = build_request (stringify env) data language userPrompt img history templates \<and>
    no_text r \<and>
    (generateContent env 0 req = Responds r \<or>
     (\<exists>msg. generateContent env 0 req = Throws msg \<and> retry_condition msg \<and>
            generateContent env 1 req = Responds r))"
  let ?req = "build_request (stringify env) data language userPrompt img history templates"
  from b have k: "createAIClient (apiKey env) = Inr k" by blast
  from b have n: "no_text r" by blast
  from b have rq: "req = ?req" by blast
  from b have d: "generateContent env 0 req = Responds r \<or>
     (\<exists>msg. generateContent env 0 req = Throws msg \<and> retry_condition msg \<and>
            generateContent env 1 req = Responds r)" by blast
  from d show "snd (analyzeDataWithGemini env data language userPrompt img history templates) =
        Inl (Error ''No response generated from AI.'')"
  proof
    assume "generateContent env 0 req = Responds r"
    then have "generateContent env 0 ?req = Responds r" using rq by simp
    from analyze_first_responds [OF k this] show ?thesis
      by (simp add: result_of_no_text [OF n])
  next
    assume "\<exists>msg. generateContent env 0 req = Throws msg \<and> retry_condition msg \<and>
            generateContent env 1 req = Responds r"
    then obtain msg where t: "generateContent env 0 ?req = Throws msg"
      and c: "retry_condition msg" and s: "generateContent env 1 ?req = Responds r"
      using rq by auto
    from analyze_first_throws [OF k t] c s show ?thesis
      by (simp add: Let_def result_of_no_text [OF n] del: One_nat_def)
  qed
qed

theorem successful_result_has_schema_shape_witness:
  "service_honours_schema answering \<and>
   analyzeDataWithGemini answering [] en_US None None None None =
     ([Request (build_request (\<lambda>v. ''[]'') [] en_US None None None None)], Inr goodResult) \<and>
   is_analysis_result goodResult \<and>
   no_text (Response (Some [])) \<and>
   snd (analyzeDataWithGemini silent [] en_US None None None None) =
     Inl (Error ''No response generated from AI.'')"
proof -
  let ?req = "build_request (\<lambda>v. ''[]'') [] en_US None None None None"
  have c: "conforms analysisSchema goodResult"
    by (simp add: analysisSchema_def chartSchema_def goodResult_def)
  have h: "service_honours_schema answering"
    unfolding service_honours_schema_def using c
    by (auto simp: answering_def split: if_splits)
  have k: "createAIClient (apiKey answering) = Inr ''key''"
    by (simp add: answering_def createAIClient_def)
  have g: "generateContent answering 0
             (build_request (stringify answering) [] en_US None None None None) =
           Responds (Response (Some ''ok''))"
    by (simp add: answering_def responseSchema_build_request)
  have a: "analyzeDataWithGemini answering [] en_US None None None None =
     ([Request ?req], Inr goodResult)"
    using analyze_first_responds [OF k g] by (simp add: answering_def result_of_def)
  have n: "no_text (Response (Some []))" by (simp add: no_text_def)
  have s: "createAIClient (apiKey silent) = Inr ''key'' \<and>
    ?req = build_request (stringify silent) [] en_US None None None None \<and>
    no_text (Response (Some [])) \<and>
    (generateContent silent 0 ?req = Responds (Response (Some [])) \<or>
     (\<exists>msg. generateContent silent 0 ?req = Throws msg \<and> retry_condition msg \<and>
            generateContent silent 1 ?req = Responds (Response (Some []))))"
    by (simp add: silent_def createAIClient_def no_text_def)
  note t1 = successful_result_has_schema_shape [where env = answering and data = "[]"
      and language = en_US and userPrompt = None and img = None and history = None
      and templates = None, THEN conjunct1, rule_format, OF h a]
  note t2 = successful_result_has_schema_shape [where env = silent and data = "[]"
      and language = en_US and userPrompt = None and img = None and history = None
      and templates = None and k = "''key''" and req = ?req and r = "Response (Some [])",
      THEN conjunct2, THEN conjunct2, rule_format, OF s]
  show ?thesis using h a t1 n t2 by blast
qed

section \<open>The sample sent to the model\<close>

lemma build_request_sample:
  "build_request str data language userPrompt img history templates =
   build_request str (take sampleSize data) language userPrompt img history templates"
  by (simp add: build_request_def Let_def)

lemma headers_of_sample:
  "headers_of (take sampleSize data) =
     join '', '' (case data of [] \<Rightarrow> [] | r # rs \<Rightarrow> map fst r)"
  by (cases data) (simp_all add: headers_of_def sampleSize_def)

lemma frame_step: "xs = p @ r \<Longrightarrow> c @ xs = (c @ p) @ r"
  by simp

lemma frame_hole: "r = r' \<Longrightarrow> h @ r = [] @ h @ r'"
  by simp

lemma baseContext_frame:
  "\<exists>pre mid post. \<forall>headers dataSample.
      baseContext str templates headers dataSample =
        pre @ headers @ mid @ str (rows_json dataSample) @ post"
proof (cases "has_templates templates")
  case True
  show ?thesis
    apply (rule exI, rule exI, rule exI, intro allI)
    apply (simp only: baseContext_def True if_True)
    apply (rule frame_step)+
    apply (rule frame_hole)
    apply (rule frame_step)+
    apply (rule frame_hole)
    apply (rule refl)
    done
next
  case False
  show ?thesis
    apply (rule exI, rule exI, rule exI, intro allI)
    apply (simp only: baseContext_def False if_False)
    apply (rule frame_step)+
    apply (rule frame_hole)
    apply (rule frame_step)+
    apply (rule frame_hole)
    apply (rule refl)
    done
qed

text \<open>
  Claim C8. The sample is the first 40 rows of the dataset, all of them when there
  are fewer. The text sent to the model is a frame that does not depend on the dataset,
  with two holes: one holds the keys of the first row, joined by a comma and a space
  (nothing for an empty dataset), the other the JSON text of the sample. The only other
  part of the request is the attached image, when there is one. So the request, and
  with it the whole call, is the same for two datasets with the same first 40 rows: no
  row after the fortieth reaches the model.
\<close>

theorem prompt_embeds_only_the_sample:
  "length (take sampleSize data) \<le> 40 \<and>
   take sampleSize data = take 40 data \<and>
   (length data < 40 \<longrightarrow> take sampleSize data = data) \<and>
   headers_of (take sampleSize data) =
     join '', '' (case data of [] \<Rightarrow> [] | r # rs \<Rightarrow> map fst r) \<and>
   (\<exists>attached pre mid post. \<forall>d.
      parts (build_request str d language userPrompt img history templates) =
        attached @
        [Text (pre @ headers_of (take 40 d) @ mid @ str (rows_json (take 40 d)) @ post)] \<and>
      attached = (case img of None \<Rightarrow> []
                  | Some a \<Rightarrow> [InlineData (mimeType a) (att_content a)])) \<and>
   (\<forall>d. take 40 d = take 40 data \<longrightarrow>
      build_request str d language userPrompt img history templates =
        build_request str data language userPrompt img history templates \<and>
      analyzeDataWithGemini env d language userPrompt img history templates =
        analyzeDataWithGemini env data language userPrompt img history templates)"
proof -
  have s: "sampleSize = 40" by (simp add: sampleSize_def)
  obtain pre mid post where f: "\<And>headers dataSample.
      baseContext str templates headers dataSample =
        pre @ headers @ mid @ str (rows_json dataSample) @ post"
    using baseContext_frame [of str templates] by blast
  let ?post = "post @ taskPrompt userPrompt img history (languageName language)"
  let ?att = "case img of None \<Rightarrow> [] | Some a \<Rightarrow> [InlineData (mimeType a) (att_content a)]"
  have p: "\<forall>d. parts (build_request str d language userPrompt img history templates) =
        ?att @ [Text (pre @ headers_of (take 40 d) @ mid @ str (rows_json (take 40 d)) @ ?post)] \<and>
        ?att = ?att"
    by (cases img) (simp_all add: build_request_def Let_def f s)
  have e: "\<forall>d. take 40 d = take 40 data \<longrightarrow>
      build_request str d language userPrompt img history templates =
        build_request str data language userPrompt img history templates \<and>
      analyzeDataWithGemini env d language userPrompt img history templates =
        analyzeDataWithGemini env data language userPrompt img history templates"
  proof (intro allI impI)
    fix d
    assume t: "take 40 d = take 40 data"
    have b: "build_request x d language userPrompt img history templates =
        build_request x data language userPrompt img history templates" for x
      using build_request_sample [of x d] build_request_sample [of x data] t
      by (simp add: s)
    show "build_request str d language userPrompt img history templates =
        build_request str data language userPrompt img history templates \<and>
      analyzeDataWithGemini env d language userPrompt img history templates =
        analyzeDataWithGemini env data language userPrompt img history templates"
      by (simp only: analyzeDataWithGemini_def b)
  qed
  have a: "length (take sampleSize data) \<le> 40" by (simp add: s)
  have c: "length data < 40 \<longrightarrow> take sampleSize data = data" by (simp add: s)
  have t: "take sampleSize data = take 40 data" by (simp add: s)
  have x: "\<exists>attached pre mid post. \<forall>d.
      parts (build_request str d language userPrompt img history templates) =
        attached @
        [Text (pre @ headers_of (take 40 d) @ mid @ str (rows_json (take 40 d)) @ post)] \<and>
      attached = (case img of None \<Rightarrow> []
                  | Some a \<Rightarrow> [InlineData (mimeType a) (att_content a)])"
    using p by (intro exI) 
  show ?thesis
    using a t c headers_of_sample [of data] x e by (intro conjI)
qed

theorem prompt_embeds_only_the_sample_witness:
  "take 40 (rowsAB @ replicate 40 [(''Customer'', JStr ''Zed'')]) =
     take 40 (rowsAB @ replicate 38 [(''Customer'', JStr ''Zed'')]) \<and>
   length rowsAB < 40 \<and> take sampleSize rowsAB = rowsAB \<and>
   headers_of (take sampleSize rowsAB) = ''Customer, Amount'' \<and>
   build_request (\<lambda>v. ''[]'') (rowsAB @ replicate 40 [(''Customer'', JStr ''Zed'')]) en_US None None
     None None =
   build_request (\<lambda>v. ''[]'') (rowsAB @ replicate 38 [(''Customer'', JStr ''Zed'')]) en_US None None
     None None"
proof -
  let ?long = "rowsAB @ replicate 40 [(''Customer'', JStr ''Zed'')]"
  let ?short = "rowsAB @ replicate 38 [(''Customer'', JStr ''Zed'')]"
  have l: "length rowsAB = 2" by (simp add: rowsAB_def)
  have t: "take 40 ?long = take 40 ?short"
    by (simp add: l)
  have n: "length rowsAB < 40" by (simp add: l)
  note w1 = prompt_embeds_only_the_sample [where data = rowsAB]
  note w2 = prompt_embeds_only_the_sample [where data = ?short and str = "\<lambda>v. ''[]''"
      and language = en_US and userPrompt = None and img = None and history = None
      and templates = None]
  have a: "take sampleSize rowsAB = rowsAB" using w1 n by blast
  have "headers_of (take sampleSize rowsAB) =
          join '', '' (case rowsAB of [] \<Rightarrow> [] | r # rs \<Rightarrow> map fst r)"
    using w1 by blast
  then have h: "headers_of (take sampleSize rowsAB) = ''Customer, Amount''"
    by (simp add: rowsAB_def)
  have b: "build_request (\<lambda>v. ''[]'') ?long en_US None None None None =
           build_request (\<lambda>v. ''[]'') ?short en_US None None None None"
    using w2 t by blast
  show ?thesis using t n a h b by blast
qed

end
